theory Spec2Isabelle
  imports Main "HOL-Library.Word"
begin

unbundle bit_operations_syntax

section \<open>Agilex5 SDRAM bring-up (drivers/ddr/altera/sdram\_agilex5.c)\<close>

text \<open>
  A shallow embedding of \<^verbatim>\<open>sdram_agilex5.c\<close>. Registers are 32-bit words, physical
  addresses and sizes (\<^verbatim>\<open>phys_addr_t\<close>, \<^verbatim>\<open>phys_size_t\<close>) are 64-bit words, memory-mapped
  I/O is an explicit store from addresses to register values, and the driver's
  collaborators (IOSSM mailbox, device tree decoder, handoff reader, firewall) are
  an interface record of functions.
\<close>

type_synonym u32 = "32 word"
type_synonym u64 = "64 word"

subsection \<open>Bitfield macros (linux/bitops.h, linux/bitfield.h)\<close>

definition BIT :: "nat \<Rightarrow> u32" where
  "BIT n = push_bit n 1"

definition GENMASK :: "nat \<Rightarrow> nat \<Rightarrow> u32" where
  "GENMASK h l = ucast ((push_bit l (- 1 :: u64)) AND (drop_bit (63 - h) (- 1 :: u64)))"

text \<open>\<^verbatim>\<open>__bf_shf(mask)\<close>: the index of the lowest set bit of the mask.\<close>

definition bf_shf :: "u32 \<Rightarrow> nat" where
  "bf_shf m = length (takeWhile (\<lambda>n. \<not> bit m n) [0..<32])"

definition FIELD_GET :: "u32 \<Rightarrow> u32 \<Rightarrow> u32" where
  "FIELD_GET m reg = drop_bit (bf_shf m) (reg AND m)"

subsection \<open>Constants of the file\<close>

definition F2SDRAM_SIDEBAND_FLAGOUTSET0 :: u64 where
  "F2SDRAM_SIDEBAND_FLAGOUTSET0 = 0x50"

definition F2SDRAM_SIDEBAND_FLAGOUTSTATUS0 :: u64 where
  "F2SDRAM_SIDEBAND_FLAGOUTSTATUS0 = 0x58"

definition PORT_EMIF_CONFIG_OFFSET :: nat where
  "PORT_EMIF_CONFIG_OFFSET = 4"

definition EMIF_PLL_MASK :: u32 where
  "EMIF_PLL_MASK = GENMASK 19 16"

definition MEMORY_BANK_MAX_COUNT :: nat where
  "MEMORY_BANK_MAX_COUNT = 3"

definition ENXIO :: int where
  "ENXIO = 6"

definition SZ_1G :: u64 where
  "SZ_1G = 0x40000000"

definition SZ_8 :: u64 where
  "SZ_8 = 8"

text \<open>
  The system-manager register offsets and masks, the base addresses and
  \<^verbatim>\<open>CONFIG_NR_DRAM_BANKS\<close> come from headers and the board configuration; the
  functions below take them as a parameter record.
\<close>

record soc_consts =
  socfpga_get_sysmgr_addr :: u64
  SYSMGR_SOC64_BOOT_SCRATCH_POR0 :: u64
  SYSMGR_SOC64_BOOT_SCRATCH_COLD3 :: u64
  SYSMGR_SOC64_MPFE_CONFIG :: u64
  SOCFPGA_F2SDRAM_MGR_ADDRESS :: u64
  DDR_RESET_TYPE_MASK :: u32
  DDR_RESET_TYPE_SHIFT :: nat
  OCRAM_DBE_MASK :: u32
  DDR_DBE_MASK :: u32
  DDR_PROGRESS_MASK :: u32
  CONFIG_NR_DRAM_BANKS :: nat

definition SIDEBANDMGR_FLAGOUTSET0_REG :: "soc_consts \<Rightarrow> u64" where
  "SIDEBANDMGR_FLAGOUTSET0_REG P = SOCFPGA_F2SDRAM_MGR_ADDRESS P + F2SDRAM_SIDEBAND_FLAGOUTSET0"

subsection \<open>Reset type\<close>

datatype reset_type =
  POR_RESET | WARM_RESET | COLD_RESET | NCONFIG | JTAG_CONFIG | RSU_RECONFIG

text \<open>The value of each enumerator, in declaration order from 0.\<close>

fun reset_type_val :: "reset_type \<Rightarrow> u32" where
  "reset_type_val POR_RESET = 0"
| "reset_type_val WARM_RESET = 1"
| "reset_type_val COLD_RESET = 2"
| "reset_type_val NCONFIG = 3"
| "reset_type_val JTAG_CONFIG = 4"
| "reset_type_val RSU_RECONFIG = 5"

text \<open>The enumerator a value of the C enum type stands for, if any.\<close>

definition reset_type_of :: "u32 \<Rightarrow> reset_type option" where
  "reset_type_of v =
     (if v = 0 then Some POR_RESET
      else if v = 1 then Some WARM_RESET
      else if v = 2 then Some COLD_RESET
      else if v = 3 then Some NCONFIG
      else if v = 4 then Some JTAG_CONFIG
      else if v = 5 then Some RSU_RECONFIG
      else None)"

text \<open>
  \<^verbatim>\<open>get_reset_type\<close> returns the shifted field converted to the enum type with no
  range check: the model returns the field value itself.
\<close>

definition get_reset_type :: "soc_consts \<Rightarrow> u32 \<Rightarrow> u32" where
  "get_reset_type P reg = drop_bit (DDR_RESET_TYPE_SHIFT P) (reg AND DDR_RESET_TYPE_MASK P)"

subsection \<open>Data\<close>

record dram_bank_info_s =
  start :: u64
  max_size :: u64

definition dram_bank_info :: "dram_bank_info_s list" where
  "dram_bank_info =
     [\<lparr>start = 0x80000000, max_size = 0x80000000\<rparr>,
      \<lparr>start = 0x880000000, max_size = 0x780000000\<rparr>,
      \<lparr>start = 0x8800000000, max_size = 0x7800000000\<rparr>]"

definition io96b_csr_reg_addr :: "u64 list" where
  "io96b_csr_reg_addr = [0x18400000, 0x18800000]"

text \<open>One entry of \<^verbatim>\<open>bd.bi_dram\<close>.\<close>

record bi_dram_s =
  bank_start :: u64
  bank_size :: u64

text \<open>
  \<^verbatim>\<open>struct io96b_info\<close> (iossm\_mailbox.h), with the fields this file reads and
  writes. Arrays are maps from the index to the element.
\<close>

record io96b_instance =
  io96b_csr_addr :: u64
  cal_status :: bool

record io96b_info =
  num_instance :: nat
  num_port :: nat
  io96b_pll :: u32
  ckgen_lock :: bool
  io96b :: "nat \<Rightarrow> io96b_instance"
  overall_cal_status :: bool
  overall_size :: u64
  ecc_status :: bool
  ddr_type :: string

text \<open>
  What the driver prints with \<^verbatim>\<open>printf\<close> and \<^verbatim>\<open>puts\<close> (the format string and the
  numeric arguments; \<^verbatim>\<open>debug\<close> output is left out) and which mailbox, device tree
  and firewall collaborators it calls, in order.
\<close>

datatype event =
  Printf string "u64 list"
  | Call string

text \<open>
  The state a run works on: the register store, \<^verbatim>\<open>gd->ram_size\<close>, the platform
  and private data of the device, the locals of \<^verbatim>\<open>sdram_mmr_init_full\<close>, and the
  console and call trace.
\<close>

record ddr_state =
  mmio :: "u64 \<Rightarrow> u32"
  gd_ram_size :: u64
  plat_dualport :: bool
  plat_dualemif :: bool
  priv_info_base :: u64
  priv_info_size :: u64
  io96b_ctrl :: io96b_info
  bd_bi_dram :: "nat \<Rightarrow> bi_dram_s"
  hw_size :: u64
  reset_t :: u32
  is_ddr_hang_be4_rst :: bool
  full_mem_init :: bool
  trace :: "event list"

definition emit :: "event \<Rightarrow> ddr_state \<Rightarrow> ddr_state" where
  "emit e s = s\<lparr>trace := trace s @ [e]\<rparr>"

subsection \<open>Register access (asm/io.h)\<close>

definition readl :: "u64 \<Rightarrow> ddr_state \<Rightarrow> u32" where
  "readl a s = mmio s a"

definition writel :: "u32 \<Rightarrow> u64 \<Rightarrow> ddr_state \<Rightarrow> ddr_state" where
  "writel v a s = s\<lparr>mmio := (mmio s)(a := v)\<rparr>"

definition setbits_le32 :: "u64 \<Rightarrow> u32 \<Rightarrow> ddr_state \<Rightarrow> ddr_state" where
  "setbits_le32 a m s = writel (readl a s OR m) a s"

definition clrbits_le32 :: "u64 \<Rightarrow> u32 \<Rightarrow> ddr_state \<Rightarrow> ddr_state" where
  "clrbits_le32 a m s = writel (readl a s AND NOT m) a s"

subsection \<open>Scratch-register markers\<close>

definition set_mpfe_config :: "soc_consts \<Rightarrow> ddr_state \<Rightarrow> ddr_state" where
  "set_mpfe_config P s =
     setbits_le32 (socfpga_get_sysmgr_addr P + SYSMGR_SOC64_MPFE_CONFIG P) (BIT 8)
       (setbits_le32 (socfpga_get_sysmgr_addr P + SYSMGR_SOC64_MPFE_CONFIG P) (BIT 2) s)"

definition is_ddr_init_hang :: "soc_consts \<Rightarrow> ddr_state \<Rightarrow> bool" where
  "is_ddr_init_hang P s =
     (let reg = readl (socfpga_get_sysmgr_addr P + SYSMGR_SOC64_BOOT_SCRATCH_POR0 P) s
      in if reg AND DDR_PROGRESS_MASK P \<noteq> 0 then True else False)"

definition ddr_init_inprogress :: "soc_consts \<Rightarrow> bool \<Rightarrow> ddr_state \<Rightarrow> ddr_state" where
  "ddr_init_inprogress P start_flag s =
     (if start_flag
      then setbits_le32 (socfpga_get_sysmgr_addr P + SYSMGR_SOC64_BOOT_SCRATCH_POR0 P)
             (DDR_PROGRESS_MASK P) s
      else clrbits_le32 (socfpga_get_sysmgr_addr P + SYSMGR_SOC64_BOOT_SCRATCH_POR0 P)
             (DDR_PROGRESS_MASK P) s)"

definition hps_ocram_dbe_status :: "soc_consts \<Rightarrow> ddr_state \<Rightarrow> bool" where
  "hps_ocram_dbe_status P s =
     (let reg = readl (socfpga_get_sysmgr_addr P + SYSMGR_SOC64_BOOT_SCRATCH_COLD3 P) s
      in if reg AND OCRAM_DBE_MASK P \<noteq> 0 then True else False)"

definition ddr_ecc_dbe_status :: "soc_consts \<Rightarrow> ddr_state \<Rightarrow> bool" where
  "ddr_ecc_dbe_status P s =
     (let reg = readl (socfpga_get_sysmgr_addr P + SYSMGR_SOC64_BOOT_SCRATCH_COLD3 P) s
      in if reg AND DDR_DBE_MASK P \<noteq> 0 then True else False)"

subsection \<open>Collaborators\<close>

text \<open>
  Modelled from the spec: the functions this file calls and does not define
  (\<^verbatim>\<open>socfpga_handoff_read\<close>, \<^verbatim>\<open>uclass_get_device_by_name\<close>, the IOSSM mailbox calls,
  \<^verbatim>\<open>fdtdec_decode_ram_size\<close>) are the external interfaces of the specification,
  each a deterministic response. A call that returns \<^verbatim>\<open>int\<close> gives its status, 0 for
  success; a call on \<^verbatim>\<open>io96b_ctrl\<close> gives the updated structure.
  \<^verbatim>\<open>socfpga_handoff_read\<close> gives its status and the contents of the table buffer
  after the call; \<^verbatim>\<open>fdtdec_decode_ram_size\<close> takes and gives \<^verbatim>\<open>gd->ram_size\<close> and
  \<^verbatim>\<open>bd.bi_dram\<close>. \<^verbatim>\<open>hang()\<close> does not return.
\<close>

record collab =
  socfpga_handoff_read :: "int \<times> u32 list"
  uclass_get_device_by_name :: "string \<Rightarrow> int"
  init_mem_cal :: "io96b_info \<Rightarrow> io96b_info"
  io96b_mb_init :: "io96b_info \<Rightarrow> io96b_info"
  trig_mem_cal :: "io96b_info \<Rightarrow> io96b_info"
  get_mem_technology :: "io96b_info \<Rightarrow> int \<times> io96b_info"
  get_mem_width_info :: "io96b_info \<Rightarrow> int \<times> io96b_info"
  fdtdec_decode_ram_size ::
    "u64 \<Rightarrow> (nat \<Rightarrow> bi_dram_s) \<Rightarrow> int \<times> u64 \<times> (nat \<Rightarrow> bi_dram_s)"
  ecc_enable_status :: "io96b_info \<Rightarrow> int \<times> io96b_info"
  bist_mem_init_start :: "io96b_info \<Rightarrow> int \<times> io96b_info"

text \<open>
  How a call ends: it returns a status, it stops in \<^verbatim>\<open>hang()\<close>, or it reads outside
  the handoff table (undefined in C).
\<close>

datatype outcome = Returned int | Hang | Undefined

datatype flow = Exit outcome ddr_state | Next ddr_state

definition and_then :: "flow \<Rightarrow> (ddr_state \<Rightarrow> flow) \<Rightarrow> flow" where
  "and_then f g = (case f of Exit r s \<Rightarrow> Exit r s | Next s \<Rightarrow> g s)"

subsection \<open>Handoff and topology\<close>

text \<open>
  The status of \<^verbatim>\<open>socfpga_handoff_read\<close> is not looked at; the function returns 0.
\<close>

definition populate_ddr_handoff :: "collab \<Rightarrow> ddr_state \<Rightarrow> (int \<times> ddr_state) option" where
  "populate_ddr_handoff E s =
     (let handoff_table = snd (socfpga_handoff_read E)
      in if \<not> PORT_EMIF_CONFIG_OFFSET < length handoff_table then None
         else
           let w = handoff_table ! PORT_EMIF_CONFIG_OFFSET;
               dualport = (FIELD_GET (BIT 0) w \<noteq> 0);
               c1 = (io96b_ctrl s)\<lparr>num_port := (if dualport then 2 else 1)\<rparr>;
               dualemif = (FIELD_GET (BIT 1) w \<noteq> 0);
               c2 = c1\<lparr>num_instance := (if dualemif then 2 else 1)\<rparr>;
               c3 = c2\<lparr>io96b_pll := FIELD_GET EMIF_PLL_MASK w\<rparr>;
               c4 = fold (\<lambda>i c. c\<lparr>io96b := (io96b c)
                            (i := (io96b c i)\<lparr>io96b_csr_addr := io96b_csr_reg_addr ! i\<rparr>)\<rparr>)
                      [0..<num_instance c3] c3
           in Some (0, s\<lparr>plat_dualport := dualport, plat_dualemif := dualemif,
                          io96b_ctrl := c4\<rparr>))"

definition config_mpfe_sideband_mgr :: "soc_consts \<Rightarrow> ddr_state \<Rightarrow> int \<times> ddr_state" where
  "config_mpfe_sideband_mgr P s =
     (let s1 = (if plat_dualport s
                then setbits_le32 (SIDEBANDMGR_FLAGOUTSET0_REG P) (BIT 4) s else s);
          s2 = (if plat_dualemif s1
                then setbits_le32 (SIDEBANDMGR_FLAGOUTSET0_REG P) (BIT 5) (set_mpfe_config P s1)
                else s1)
      in (0, s2))"

definition config_ccu_mgr :: "collab \<Rightarrow> ddr_state \<Rightarrow> flow" where
  "config_ccu_mgr E s =
     (let ret = (if plat_dualport s \<or> plat_dualemif s
                 then uclass_get_device_by_name E ''socfpga-secreg-ccu-interleaving-on''
                 else uclass_get_device_by_name E ''socfpga-secreg-ccu-interleaving-off'')
      in if ret \<noteq> 0
         then Exit Hang
                (emit (Printf ''interleaving on/off ccu settings init failed: %d''
                         [word_of_int ret]) s)
         else Next s)"

subsection \<open>The steps of sdram\_mmr\_init\_full\<close>

text \<open>
  Entry: the reset type is read from the cold scratch register, the progress
  marker is read and then set. \<^verbatim>\<open>bd\<close> starts zeroed; \<^verbatim>\<open>io96b_ctrl\<close> comes from
  \<^verbatim>\<open>malloc\<close>, which is taken to succeed, and holds whatever the state holds. The
  heap is not modelled, so the \<^verbatim>\<open>free\<close> on each return has no counterpart.
\<close>

definition step_entry :: "soc_consts \<Rightarrow> ddr_state \<Rightarrow> flow" where
  "step_entry P s =
     (let reg = readl (socfpga_get_sysmgr_addr P + SYSMGR_SOC64_BOOT_SCRATCH_COLD3 P) s;
          s1 = s\<lparr>bd_bi_dram := (\<lambda>i. \<lparr>bank_start = 0, bank_size = 0\<rparr>),
                 reset_t := get_reset_type P reg,
                 full_mem_init := False\<rparr>;
          s2 = s1\<lparr>is_ddr_hang_be4_rst := is_ddr_init_hang P s1\<rparr>
      in Next (ddr_init_inprogress P True s2))"

definition step_handoff :: "collab \<Rightarrow> ddr_state \<Rightarrow> flow" where
  "step_handoff E s =
     (case populate_ddr_handoff E s of
        None \<Rightarrow> Exit Undefined s
      | Some (ret, s1) \<Rightarrow>
          if ret \<noteq> 0
          then Exit (Returned ret) (emit (Printf ''DDR: Failed to populate DDR handoff'' []) s1)
          else Next s1)"

definition step_sideband :: "soc_consts \<Rightarrow> ddr_state \<Rightarrow> flow" where
  "step_sideband P s =
     (case config_mpfe_sideband_mgr P s of
        (ret, s1) \<Rightarrow>
          if ret \<noteq> 0
          then Exit (Returned ret)
                 (emit (Printf ''DDR: Failed to configure dual port dual emif'' []) s1)
          else Next s1)"

text \<open>The block under \<^verbatim>\<open>if (ddr_ecc_dbe_status())\<close>.\<close>

definition clear_cal_status :: "io96b_info \<Rightarrow> io96b_info" where
  "clear_cal_status c =
     (fold (\<lambda>i c. c\<lparr>io96b := (io96b c)(i := (io96b c i)\<lparr>cal_status := False\<rparr>)\<rparr>)
        [0..<num_instance c] c)\<lparr>overall_cal_status := False\<rparr>"

definition step_calibration :: "soc_consts \<Rightarrow> collab \<Rightarrow> ddr_state \<Rightarrow> flow" where
  "step_calibration P E s =
     (let c1 = (io96b_ctrl s)\<lparr>ckgen_lock := True\<rparr>;
          c2 = init_mem_cal E c1;
          c3 = io96b_mb_init E c2;
          s1 = emit (Call ''io96b_mb_init'') (emit (Call ''init_mem_cal'') s);
          c4 = (if ddr_ecc_dbe_status P s1 then clear_cal_status c3 else c3);
          s2 = (if \<not> overall_cal_status c4
                then (emit (Call ''trig_mem_cal'')
                        (emit (Printf ''DDR: Re-calibration in progress...'' []) s1))
                       \<lparr>io96b_ctrl := trig_mem_cal E c4\<rparr>
                else s1\<lparr>io96b_ctrl := c4\<rparr>)
      in Next (emit (Printf ''DDR: Calibration success'' []) s2))"

definition step_queries :: "collab \<Rightarrow> ddr_state \<Rightarrow> flow" where
  "step_queries E s =
     (case get_mem_technology E (io96b_ctrl s) of
        (ret, c1) \<Rightarrow>
          let s1 = (emit (Call ''get_mem_technology'') s)\<lparr>io96b_ctrl := c1\<rparr>
          in if ret \<noteq> 0
             then Exit (Returned ret) (emit (Printf ''DDR: Failed to get DDR type'' []) s1)
             else
               (case get_mem_width_info E c1 of
                  (ret, c2) \<Rightarrow>
                    let s2 = (emit (Call ''get_mem_width_info'') s1)\<lparr>io96b_ctrl := c2\<rparr>
                    in if ret \<noteq> 0
                       then Exit (Returned ret)
                              (emit (Printf ''DDR: Failed to get DDR size'' []) s2)
                       else Next (s2\<lparr>hw_size := (overall_size c2 * SZ_1G) div SZ_8\<rparr>)))"

subsection \<open>Geometry\<close>

text \<open>
  The bank-filling loop: \<^verbatim>\<open>is\<close> are the indices still to visit, \<^verbatim>\<open>size_counter\<close> the
  capacity handed out so far. The first bank that can hold the remainder gets it
  and ends the loop; every bank before it gets its whole capacity. The subtraction
  is that of \<^verbatim>\<open>phys_size_t\<close>.
\<close>

fun fill_banks ::
  "u64 \<Rightarrow> nat list \<Rightarrow> u64 \<Rightarrow> (nat \<Rightarrow> bi_dram_s) \<Rightarrow> (nat \<Rightarrow> bi_dram_s)" where
  "fill_banks hw [] size_counter bd = bd"
| "fill_banks hw (i # is) size_counter bd =
     (let remaining_size = hw - size_counter
      in if remaining_size \<le> max_size (dram_bank_info ! i)
         then bd(i := \<lparr>bank_start = start (dram_bank_info ! i), bank_size = remaining_size\<rparr>)
         else fill_banks hw is (size_counter + max_size (dram_bank_info ! i))
                (bd(i := \<lparr>bank_start = start (dram_bank_info ! i),
                          bank_size = max_size (dram_bank_info ! i)\<rparr>)))"

definition config_dram_banks :: "soc_consts \<Rightarrow> nat" where
  "config_dram_banks P =
     (if CONFIG_NR_DRAM_BANKS P > MEMORY_BANK_MAX_COUNT
      then MEMORY_BANK_MAX_COUNT else CONFIG_NR_DRAM_BANKS P)"

text \<open>The block under \<^verbatim>\<open>if (gd->ram_size == 0 && hw_size > 0)\<close>.\<close>

definition auto_partition :: "soc_consts \<Rightarrow> ddr_state \<Rightarrow> ddr_state" where
  "auto_partition P s =
     (let s1 = (if CONFIG_NR_DRAM_BANKS P > MEMORY_BANK_MAX_COUNT
                then emit (Printf '' Max Memory Bank count is in use instead of CONFIG_NR_DRAM_BANKS.'' [])
                       (emit (Printf ''DDR: Warning: CONFIG_NR_DRAM_BANKS(%d) is bigger than Max Memory Bank count(%d).''
                                [of_nat (CONFIG_NR_DRAM_BANKS P), of_nat MEMORY_BANK_MAX_COUNT]) s)
                else s)
      in s1\<lparr>bd_bi_dram := fill_banks (hw_size s1) [0..<config_dram_banks P] 0 (bd_bi_dram s1),
            gd_ram_size := hw_size s1\<rparr>)"

definition step_geometry :: "soc_consts \<Rightarrow> collab \<Rightarrow> ddr_state \<Rightarrow> flow" where
  "step_geometry P E s =
     (case fdtdec_decode_ram_size E (gd_ram_size s) (bd_bi_dram s) of
        (ret, ram_size, bd) \<Rightarrow>
          let s1 = (emit (Call ''fdtdec_decode_ram_size'') s)
                     \<lparr>gd_ram_size := ram_size, bd_bi_dram := bd\<rparr>
          in if ret \<noteq> 0
             then Exit (Returned (- ENXIO))
                    (emit (Printf ''DDR: Failed to decode memory node'' []) s1)
             else
               let s2 = (if gd_ram_size s1 > 0 \<and> gd_ram_size s1 \<noteq> hw_size s1
                         then emit (Printf '' mismatch with hardware (%lld MiB).''
                                      [drop_bit 20 (hw_size s1)])
                                (emit (Printf ''DDR: Warning: DRAM size from device tree (%lld MiB)''
                                         [drop_bit 20 (gd_ram_size s1)]) s1)
                         else s1)
               in if gd_ram_size s2 > hw_size s2
                  then Exit Hang
                         (emit (Printf '' than hardware size.'' [])
                            (emit (Printf ''DDR: Error: DRAM size from device tree is greater'' [])
                               s2))
                  else if gd_ram_size s2 = 0 \<and> hw_size s2 > 0
                       then Next (auto_partition P s2)
                       else Next s2)"

subsection \<open>ECC and full memory initialization\<close>

definition step_ecc :: "soc_consts \<Rightarrow> collab \<Rightarrow> ddr_state \<Rightarrow> flow" where
  "step_ecc P E s =
     (let s0 = emit (Printf ''%s: %lld MiB'' [drop_bit 20 (gd_ram_size s)]) s
      in case ecc_enable_status E (io96b_ctrl s0) of
           (ret, c1) \<Rightarrow>
             let s1 = (emit (Call ''ecc_enable_status'') s0)\<lparr>io96b_ctrl := c1\<rparr>
             in if ret \<noteq> 0
                then Exit (Returned ret)
                       (emit (Printf ''DDR: Failed to get DDR ECC status'' []) s1)
                else if ecc_status (io96b_ctrl s1)
                then
                  let s2 = s1\<lparr>full_mem_init :=
                                hps_ocram_dbe_status P s1 \<or> ddr_ecc_dbe_status P s1 \<or>
                                is_ddr_hang_be4_rst s1\<rparr>
                  in if full_mem_init s2 \<or>
                        \<not> (reset_t s2 = reset_type_val WARM_RESET \<or>
                           reset_t s2 = reset_type_val COLD_RESET)
                     then
                       (case bist_mem_init_start E (io96b_ctrl s2) of
                          (ret, c2) \<Rightarrow>
                            let s3 = (emit (Call ''bist_mem_init_start'') s2)\<lparr>io96b_ctrl := c2\<rparr>
                            in if ret \<noteq> 0
                               then Exit (Returned ret)
                                      (emit (Printf ''DDR: Failed to fully initialize DDR memory'' [])
                                         s3)
                               else Next (emit (Printf ''SDRAM-ECC: Initialized success'' []) s3))
                     else Next (emit (Printf ''SDRAM-ECC: Initialized success'' []) s2)
                else Next s1)"

subsection \<open>Firewall and completion\<close>

text \<open>
  \<^verbatim>\<open>sdram_size_check\<close> and \<^verbatim>\<open>sdram_set_firewall\<close> return nothing to this file; they
  appear as calls in the trace.
\<close>

definition step_finish :: "soc_consts \<Rightarrow> ddr_state \<Rightarrow> flow" where
  "step_finish P s =
     (let s1 = emit (Printf ''DDR: size check success'' []) (emit (Call ''sdram_size_check'') s);
          s2 = emit (Call ''sdram_set_firewall'') s1;
          s3 = writel 0x1 0x18000d00 s2;
          s4 = writel 0x1 0x18000d04 s3;
          s5 = writel 0x1 0x18000d08 s4;
          s6 = emit (Printf ''DDR: firewall init success'' []) s5;
          s7 = s6\<lparr>priv_info_base := bank_start (bd_bi_dram s6 0),
                  priv_info_size := gd_ram_size s6\<rparr>;
          s8 = ddr_init_inprogress P False s7
      in Exit (Returned 0) (emit (Printf ''DDR: init success'' []) s8))"

subsection \<open>sdram\_mmr\_init\_full\<close>

definition before_calibration :: "soc_consts \<Rightarrow> collab \<Rightarrow> ddr_state \<Rightarrow> flow" where
  "before_calibration P E s =
     and_then (and_then (and_then (step_entry P s) (step_handoff E)) (step_sideband P))
       (config_ccu_mgr E)"

definition before_geometry :: "soc_consts \<Rightarrow> collab \<Rightarrow> ddr_state \<Rightarrow> flow" where
  "before_geometry P E s =
     and_then (and_then (before_calibration P E s) (step_calibration P E)) (step_queries E)"

definition before_ecc :: "soc_consts \<Rightarrow> collab \<Rightarrow> ddr_state \<Rightarrow> flow" where
  "before_ecc P E s = and_then (before_geometry P E s) (step_geometry P E)"

definition run_steps :: "soc_consts \<Rightarrow> collab \<Rightarrow> ddr_state \<Rightarrow> flow" where
  "run_steps P E s = and_then (and_then (before_ecc P E s) (step_ecc P E)) (step_finish P)"

definition sdram_mmr_init_full :: "soc_consts \<Rightarrow> collab \<Rightarrow> ddr_state \<Rightarrow> outcome \<times> ddr_state" where
  "sdram_mmr_init_full P E s =
     (case run_steps P E s of Exit r s1 \<Rightarrow> (r, s1) | Next s1 \<Rightarrow> (Returned 0, s1))"

subsection \<open>Observations on a flow\<close>

definition flow_outcome :: "flow \<Rightarrow> outcome option" where
  "flow_outcome f = (case f of Exit r s \<Rightarrow> Some r | Next s \<Rightarrow> None)"

definition flow_state :: "flow \<Rightarrow> ddr_state" where
  "flow_state f = (case f of Exit r s \<Rightarrow> s | Next s \<Rightarrow> s)"

text \<open>
  The progress marker is still set where a step leaves off, and a step that ends
  the run early reports an error or hangs.
\<close>

definition marker_kept :: "soc_consts \<Rightarrow> flow \<Rightarrow> bool" where
  "marker_kept P f =
     (case f of
        Exit r s \<Rightarrow> r \<noteq> Returned 0 \<and> r \<noteq> Undefined \<and> is_ddr_init_hang P s
      | Next s \<Rightarrow> is_ddr_init_hang P s)"

subsection \<open>The partition as the specification words it\<close>

text \<open>
  For each bank in order, assign the smaller of the remaining size and the bank's
  capacity; stop at the first bank whose capacity is at least the remaining size.
\<close>

fun spec_partition :: "nat \<Rightarrow> nat list \<Rightarrow> nat list" where
  "spec_partition remaining [] = []"
| "spec_partition remaining (cap # caps) =
     (if remaining \<le> cap then [remaining]
      else min remaining cap # spec_partition (remaining - cap) caps)"

definition bank_caps :: "soc_consts \<Rightarrow> nat list" where
  "bank_caps P = map (\<lambda>b. unat (max_size b)) (take (config_dram_banks P) dram_bank_info)"

subsection \<open>Sample inputs\<close>

text \<open>
  A configuration with the reset type in bits 31 to 29 of the cold scratch
  register, the double-bit-error markers in its bits 0 and 1, the progress marker
  in bit 0 of the power-on scratch register, and three DRAM banks.
\<close>

definition sample_consts :: soc_consts where
  "sample_consts =
     \<lparr>socfpga_get_sysmgr_addr = 0x10D12000,
      SYSMGR_SOC64_BOOT_SCRATCH_POR0 = 0x258,
      SYSMGR_SOC64_BOOT_SCRATCH_COLD3 = 0x20C,
      SYSMGR_SOC64_MPFE_CONFIG = 0x228,
      SOCFPGA_F2SDRAM_MGR_ADDRESS = 0x18001000,
      DDR_RESET_TYPE_MASK = 0xE0000000,
      DDR_RESET_TYPE_SHIFT = 29,
      OCRAM_DBE_MASK = 1,
      DDR_DBE_MASK = 2,
      DDR_PROGRESS_MASK = 1,
      CONFIG_NR_DRAM_BANKS = 3\<rparr>"

definition calibrated :: "io96b_info \<Rightarrow> io96b_info" where
  "calibrated c =
     c\<lparr>io96b := (\<lambda>i. (io96b c i)\<lparr>cal_status := True\<rparr>), overall_cal_status := True\<rparr>"


text \<open>
  Collaborators that all succeed: a dual-port, dual-EMIF handoff word with PLL mask 3,
  32 Gbit (4 GiB) of ECC-capable memory, and a device tree that declares no size.
\<close>

definition sample_collab :: collab where
  "sample_collab =
     \<lparr>socfpga_handoff_read = (0, [0, 0, 0, 0, 0x30003]),
      uclass_get_device_by_name = (\<lambda>n. 0),
      init_mem_cal = calibrated,
      io96b_mb_init = (\<lambda>c. c),
      trig_mem_cal = calibrated,
      get_mem_technology = (\<lambda>c. (0, c\<lparr>ddr_type := ''DDR4''\<rparr>)),
      get_mem_width_info = (\<lambda>c. (0, c\<lparr>overall_size := 32\<rparr>)),
      fdtdec_decode_ram_size = (\<lambda>ram_size bd. (0, 0, bd)),
      ecc_enable_status = (\<lambda>c. (0, c\<lparr>ecc_status := True\<rparr>)),
      bist_mem_init_start = (\<lambda>c. (0, c))\<rparr>"

definition sample_state :: ddr_state where
  "sample_state =
     \<lparr>mmio = (\<lambda>a. 0), gd_ram_size = 0, plat_dualport = False, plat_dualemif = False,
      priv_info_base = 0, priv_info_size = 0,
      io96b_ctrl = \<lparr>num_instance = 0, num_port = 0, io96b_pll = 0, ckgen_lock = False,
                    io96b = (\<lambda>i. \<lparr>io96b_csr_addr = 0, cal_status = False\<rparr>),
                    overall_cal_status = False, overall_size = 0, ecc_status = False,
                    ddr_type = []\<rparr>,
      bd_bi_dram = (\<lambda>i. \<lparr>bank_start = 0, bank_size = 0\<rparr>),
      hw_size = 0, reset_t = 0, is_ddr_hang_be4_rst = False, full_mem_init = False,
      trace = []\<rparr>"

section \<open>Properties\<close>

subsection \<open>Bitfield decoding\<close>

lemma bf_shf_BIT0: "bf_shf (BIT 0) = 0"
  by code_simp

lemma bf_shf_BIT1: "bf_shf (BIT 1) = 1"
  by code_simp

lemma EMIF_PLL_MASK_val: "EMIF_PLL_MASK = 0xF0000"
  by code_simp

lemma bf_shf_PLL: "bf_shf EMIF_PLL_MASK = 16"
  by code_simp

lemma FIELD_GET_BIT0: "(FIELD_GET (BIT 0) w \<noteq> 0) = bit w 0"
proof -
  have e: "FIELD_GET (BIT 0) w = w AND 1"
    unfolding FIELD_GET_def bf_shf_BIT0 by (simp add: BIT_def)
  show ?thesis unfolding e by (simp add: and_one_eq bit_0 mod_2_eq_odd)
qed

lemma FIELD_GET_BIT1: "(FIELD_GET (BIT 1) w \<noteq> 0) = bit w 1"
proof -
  have e: "FIELD_GET (BIT 1) w = drop_bit 1 (w AND 2)"
    unfolding FIELD_GET_def bf_shf_BIT1 by (simp add: BIT_def)
  show ?thesis
  proof
    assume "FIELD_GET (BIT 1) w \<noteq> 0"
    then obtain n where "bit (drop_bit 1 (w AND 2)) n"
      unfolding e by (auto simp: bit_eq_iff)
    thus "bit w 1" by (cases n) (auto simp: bit_simps)
  next
    assume "bit w 1"
    hence "bit (drop_bit 1 (w AND 2)) 0" by (simp add: bit_simps)
    hence "drop_bit 1 (w AND 2) \<noteq> 0" by (metis bit_0_eq bot_apply bot_bool_def)
    thus "FIELD_GET (BIT 1) w \<noteq> 0" unfolding e .
  qed
qed

lemma FIELD_GET_PLL: "bit (FIELD_GET EMIF_PLL_MASK w) n = (n < 4 \<and> bit w (16 + n))"
proof -
  have h: "(0xF0000 :: u32) = push_bit 16 (mask 4)" by (simp add: mask_eq_exp_minus_1)
  have "FIELD_GET EMIF_PLL_MASK w = drop_bit 16 (w AND push_bit 16 (mask 4))"
    unfolding FIELD_GET_def bf_shf_PLL unfolding EMIF_PLL_MASK_val h ..
  thus ?thesis
    by (auto simp add: bit_simps dest: bit_imp_le_length)
qed

lemma neq_by_bit: "bit v n \<Longrightarrow> \<not> bit (c::u32) n \<Longrightarrow> v \<noteq> c"
  by auto

lemma field_bit:
  assumes "drop_bit S (r AND M) = (v::u32)" and "bit v n"
  shows "bit M (S + n)"
proof -
  from assms have "bit (drop_bit S (r AND M)) n" by simp
  thus ?thesis by (simp add: bit_drop_bit_eq bit_and_iff add.commute)
qed

text \<open>
  A mask and shift under which every one of the six reset types can be reported
  also let a value outside the enumeration through: reading back the mask itself
  gives a field with bits 0, 1 and 2 all set.
\<close>

lemma reset_field_overflows:
  assumes "\<forall>c. \<exists>r. get_reset_type P r = reset_type_val c"
  shows "reset_type_of (get_reset_type P (DDR_RESET_TYPE_MASK P)) = None"
proof -
  let ?S = "DDR_RESET_TYPE_SHIFT P" and ?M = "DDR_RESET_TYPE_MASK P"
  from assms have "\<exists>r. get_reset_type P r = reset_type_val RSU_RECONFIG" by blast
  then obtain r5 where r5: "drop_bit ?S (r5 AND ?M) = (5::u32)"
    by (auto simp: get_reset_type_def)
  from assms have "\<exists>r. get_reset_type P r = reset_type_val COLD_RESET" by blast
  then obtain r2 where r2: "drop_bit ?S (r2 AND ?M) = (2::u32)"
    by (auto simp: get_reset_type_def)
  have b0: "bit ?M (?S + 0)" by (rule field_bit [OF r5]) simp
  have b2: "bit ?M (?S + 2)" by (rule field_bit [OF r5]) (simp add: bit_simps)
  have b1: "bit ?M (?S + 1)" by (rule field_bit [OF r2]) (simp add: bit_simps)
  let ?v = "drop_bit ?S ?M"
  have v0: "bit ?v 0" using b0 by (simp add: bit_drop_bit_eq)
  have v1: "bit ?v 1" using b1 by (simp add: bit_drop_bit_eq add.commute)
  have v2: "bit ?v 2" using b2 by (simp add: bit_drop_bit_eq add.commute)
  have "?v \<noteq> 0" by (rule neq_by_bit [OF v0]) simp
  moreover have "?v \<noteq> 1" by (rule neq_by_bit [OF v1]) (simp add: bit_simps)
  moreover have "?v \<noteq> 2" by (rule neq_by_bit [OF v0]) (simp add: bit_simps)
  moreover have "?v \<noteq> 3" by (rule neq_by_bit [OF v2]) (simp add: bit_simps)
  moreover have "?v \<noteq> 4" by (rule neq_by_bit [OF v0]) (simp add: bit_simps)
  moreover have "?v \<noteq> 5" by (rule neq_by_bit [OF v1]) (simp add: bit_simps)
  ultimately show ?thesis by (simp add: get_reset_type_def reset_type_of_def)
qed

lemma reset_type_of_iff: "(reset_type_of v \<noteq> None) = (v \<le> 5)"
  apply (simp add: reset_type_of_def)
  apply unat_arith
  done

lemma reset_type_of_val: "(reset_type_of v = Some c) = (v = reset_type_val c)"
  by (cases c) (auto simp: reset_type_of_def)

subsection \<open>The progress marker\<close>

lemma is_hang_set:
  "DDR_PROGRESS_MASK P \<noteq> 0 \<Longrightarrow> is_ddr_init_hang P (ddr_init_inprogress P True s)"
  by (simp add: is_ddr_init_hang_def ddr_init_inprogress_def setbits_le32_def writel_def
      readl_def)

lemma is_hang_clr: "\<not> is_ddr_init_hang P (ddr_init_inprogress P False s)"
  by (simp add: is_ddr_init_hang_def ddr_init_inprogress_def clrbits_le32_def writel_def
      readl_def and.assoc)

text \<open>
  C10. Whatever the power-on scratch register holds, after \<^verbatim>\<open>ddr_init_inprogress(b)\<close>
  the function \<^verbatim>\<open>is_ddr_init_hang()\<close> returns \<open>b\<close>; the call changes no bit of that
  register outside the DDR-progress mask, and no other register. The mask comes from
  a header and is only required to be non-zero.
\<close>

theorem ddr_init_inprogress_marker:
  assumes m: "DDR_PROGRESS_MASK P \<noteq> 0"
  shows "is_ddr_init_hang P (ddr_init_inprogress P b s) = b \<and>
     (\<forall>n. \<not> bit (DDR_PROGRESS_MASK P) n \<longrightarrow>
        bit (readl (socfpga_get_sysmgr_addr P + SYSMGR_SOC64_BOOT_SCRATCH_POR0 P)
               (ddr_init_inprogress P b s)) n =
        bit (readl (socfpga_get_sysmgr_addr P + SYSMGR_SOC64_BOOT_SCRATCH_POR0 P) s) n) \<and>
     (\<forall>a. a \<noteq> socfpga_get_sysmgr_addr P + SYSMGR_SOC64_BOOT_SCRATCH_POR0 P \<longrightarrow>
        readl a (ddr_init_inprogress P b s) = readl a s)"
proof (cases b)
  case True
  with m show ?thesis
    by (simp add: is_hang_set)
      (simp add: ddr_init_inprogress_def setbits_le32_def writel_def readl_def bit_simps)
next
  case False
  then show ?thesis
    by (simp add: is_hang_clr)
      (auto simp add: ddr_init_inprogress_def clrbits_le32_def writel_def readl_def bit_simps
        dest: bit_imp_le_length)
qed

theorem ddr_init_inprogress_marker_witness:
  "DDR_PROGRESS_MASK sample_consts \<noteq> 0 \<and>
   is_ddr_init_hang sample_consts (ddr_init_inprogress sample_consts True sample_state) \<and>
   \<not> bit (DDR_PROGRESS_MASK sample_consts) 5 \<and>
   bit (readl (socfpga_get_sysmgr_addr sample_consts + SYSMGR_SOC64_BOOT_SCRATCH_POR0 sample_consts)
          (ddr_init_inprogress sample_consts True sample_state)) 5 =
   bit (readl (socfpga_get_sysmgr_addr sample_consts + SYSMGR_SOC64_BOOT_SCRATCH_POR0 sample_consts)
          sample_state) 5 \<and>
   (0::u64) \<noteq> socfpga_get_sysmgr_addr sample_consts + SYSMGR_SOC64_BOOT_SCRATCH_POR0 sample_consts \<and>
   readl 0 (ddr_init_inprogress sample_consts True sample_state) = readl 0 sample_state"
proof -
  have m: "DDR_PROGRESS_MASK sample_consts \<noteq> 0" by (simp add: sample_consts_def)
  have b: "\<not> bit (DDR_PROGRESS_MASK sample_consts) 5" by (simp add: sample_consts_def)
  have a: "(0::u64) \<noteq> socfpga_get_sysmgr_addr sample_consts +
             SYSMGR_SOC64_BOOT_SCRATCH_POR0 sample_consts"
    by (simp add: sample_consts_def)
  from ddr_init_inprogress_marker [OF m, of True sample_state] m a b show ?thesis by blast
qed

subsection \<open>Reset classification\<close>

text \<open>
  C7 as stated fails: with a three-bit reset-type field the register value
  \<open>0xC0000000\<close> is classified as 6, which is none of the six enumerators.
\<close>

theorem get_reset_type_six_causes_counterexample:
  "get_reset_type sample_consts 0xC0000000 = 6 \<and>
   reset_type_of (get_reset_type sample_consts 0xC0000000) = None"
  by code_simp

text \<open>
  C7, amended. For every register value \<^verbatim>\<open>get_reset_type\<close> returns the reset-type
  field, the register masked and shifted down: bit \<open>n\<close> of the result is bit
  \<open>SHIFT + n\<close> of the register where the mask has that bit, and clear elsewhere. The
  result is one of the six enumerated causes exactly when the field value is at most
  5; and whenever mask and shift are such that all six causes can be reported, some
  register value is classified as none of them.
\<close>

theorem get_reset_type_enumerated:
  "get_reset_type P reg = drop_bit (DDR_RESET_TYPE_SHIFT P) (reg AND DDR_RESET_TYPE_MASK P) \<and>
   (\<forall>n. bit (get_reset_type P reg) n =
      (bit reg (DDR_RESET_TYPE_SHIFT P + n) \<and>
       bit (DDR_RESET_TYPE_MASK P) (DDR_RESET_TYPE_SHIFT P + n))) \<and>
   ((\<exists>c. get_reset_type P reg = reset_type_val c) = (get_reset_type P reg \<le> 5)) \<and>
   ((\<exists>c. reset_type_of (get_reset_type P reg) = Some c) = (get_reset_type P reg \<le> 5)) \<and>
   ((\<forall>c. \<exists>r. get_reset_type P r = reset_type_val c) \<longrightarrow>
      (\<exists>r. \<forall>c. get_reset_type P r \<noteq> reset_type_val c))"
proof -
  have 0: "get_reset_type P reg =
             drop_bit (DDR_RESET_TYPE_SHIFT P) (reg AND DDR_RESET_TYPE_MASK P)"
    by (simp add: get_reset_type_def)
  have b: "\<forall>n. bit (get_reset_type P reg) n =
      (bit reg (DDR_RESET_TYPE_SHIFT P + n) \<and>
       bit (DDR_RESET_TYPE_MASK P) (DDR_RESET_TYPE_SHIFT P + n))"
    by (simp add: get_reset_type_def bit_drop_bit_eq bit_and_iff)
  have 1: "(\<exists>c. get_reset_type P reg = reset_type_val c) = (get_reset_type P reg \<le> 5)"
    using reset_type_of_iff [of "get_reset_type P reg"] reset_type_of_val [of "get_reset_type P reg"]
    by auto
  have o: "(\<exists>c. reset_type_of (get_reset_type P reg) = Some c) = (get_reset_type P reg \<le> 5)"
    using reset_type_of_iff [of "get_reset_type P reg"] by auto
  have 2: "\<exists>r. \<forall>c. get_reset_type P r \<noteq> reset_type_val c"
    if h: "\<forall>c. \<exists>r. get_reset_type P r = reset_type_val c"
  proof -
    from reset_field_overflows [OF h]
    have "\<forall>c. get_reset_type P (DDR_RESET_TYPE_MASK P) \<noteq> reset_type_val c"
      using reset_type_of_val [of "get_reset_type P (DDR_RESET_TYPE_MASK P)"] by auto
    thus ?thesis ..
  qed
  from 0 b 1 o 2 show ?thesis by blast
qed

lemma sample_reaches: "get_reset_type sample_consts (push_bit 29 (reset_type_val c)) = reset_type_val c"
  by (cases c) (simp_all add: get_reset_type_def sample_consts_def)

theorem get_reset_type_enumerated_witness:
  "(\<forall>c. \<exists>r. get_reset_type sample_consts r = reset_type_val c) \<and>
   (\<exists>r. \<forall>c. get_reset_type sample_consts r \<noteq> reset_type_val c) \<and>
   get_reset_type sample_consts 0x40000000 \<le> 5 \<and>
   get_reset_type sample_consts 0x40000000 = reset_type_val COLD_RESET \<and>
   get_reset_type sample_consts 0x40000000 =
     drop_bit (DDR_RESET_TYPE_SHIFT sample_consts)
       (0x40000000 AND DDR_RESET_TYPE_MASK sample_consts) \<and>
   bit (get_reset_type sample_consts 0x40000000) 1 =
     (bit (0x40000000 :: u32) (DDR_RESET_TYPE_SHIFT sample_consts + 1) \<and>
      bit (DDR_RESET_TYPE_MASK sample_consts) (DDR_RESET_TYPE_SHIFT sample_consts + 1))"
proof -
  have h: "\<forall>c. \<exists>r. get_reset_type sample_consts r = reset_type_val c"
    using sample_reaches by blast
  have v: "get_reset_type sample_consts 0x40000000 = reset_type_val COLD_RESET"
    by (simp add: get_reset_type_def sample_consts_def)
  note T = get_reset_type_enumerated [of sample_consts "0x40000000"]
  from T have e: "get_reset_type sample_consts 0x40000000 =
     drop_bit (DDR_RESET_TYPE_SHIFT sample_consts)
       (0x40000000 AND DDR_RESET_TYPE_MASK sample_consts)"
    by (rule conjunct1)
  from T have "\<forall>n. bit (get_reset_type sample_consts 0x40000000) n =
      (bit (0x40000000 :: u32) (DDR_RESET_TYPE_SHIFT sample_consts + n) \<and>
       bit (DDR_RESET_TYPE_MASK sample_consts) (DDR_RESET_TYPE_SHIFT sample_consts + n))"
    by blast
  hence b: "bit (get_reset_type sample_consts 0x40000000) 1 =
     (bit (0x40000000 :: u32) (DDR_RESET_TYPE_SHIFT sample_consts + 1) \<and>
      bit (DDR_RESET_TYPE_MASK sample_consts) (DDR_RESET_TYPE_SHIFT sample_consts + 1))"
    by (rule spec)
  from T have "(\<exists>c. get_reset_type sample_consts 0x40000000 = reset_type_val c) =
      (get_reset_type sample_consts 0x40000000 \<le> 5)"
    by blast
  with v have l: "get_reset_type sample_consts 0x40000000 \<le> 5" by blast
  from T h have x: "\<exists>r. \<forall>c. get_reset_type sample_consts r \<noteq> reset_type_val c"
    by blast
  from h x l v e b show ?thesis by blast
qed

subsection \<open>Handoff decoding\<close>

lemma FIELD_GET_BIT1_Suc: "(FIELD_GET (BIT (Suc 0)) w \<noteq> 0) = bit w (Suc 0)"
  using FIELD_GET_BIT1 [of w] by simp

lemma fold_csr_fields:
  "num_port (fold (\<lambda>i c. c\<lparr>io96b := f i c\<rparr>) is c) = num_port c \<and>
   num_instance (fold (\<lambda>i c. c\<lparr>io96b := f i c\<rparr>) is c) = num_instance c \<and>
   io96b_pll (fold (\<lambda>i c. c\<lparr>io96b := f i c\<rparr>) is c) = io96b_pll c \<and>
   overall_cal_status (fold (\<lambda>i c. c\<lparr>io96b := f i c\<rparr>) is c) = overall_cal_status c"
  by (induction "is" arbitrary: c) auto

text \<open>
  C8. For a handoff table that holds the configuration word (index 4), the reader
  returns 0 and sets the port count to 2 or 1 as bit 0 of the word is set or clear,
  the instance count to 2 or 1 as bit 1 is set or clear, and the PLL mask to bits
  16 to 19 of the word.
\<close>

theorem populate_ddr_handoff_decodes:
  assumes "PORT_EMIF_CONFIG_OFFSET < length (snd (socfpga_handoff_read E))"
  shows "\<exists>s'. populate_ddr_handoff E s = Some (0, s') \<and>
     num_port (io96b_ctrl s') =
       (if bit (snd (socfpga_handoff_read E) ! PORT_EMIF_CONFIG_OFFSET) 0 then 2 else 1) \<and>
     num_instance (io96b_ctrl s') =
       (if bit (snd (socfpga_handoff_read E) ! PORT_EMIF_CONFIG_OFFSET) 1 then 2 else 1) \<and>
     (\<forall>n. bit (io96b_pll (io96b_ctrl s')) n =
        (n < 4 \<and> bit (snd (socfpga_handoff_read E) ! PORT_EMIF_CONFIG_OFFSET) (16 + n)))"
  using assms
  by (simp add: populate_ddr_handoff_def Let_def fold_csr_fields FIELD_GET_BIT0 FIELD_GET_BIT1_Suc
      FIELD_GET_PLL)

theorem populate_ddr_handoff_decodes_witness:
  "PORT_EMIF_CONFIG_OFFSET < length (snd (socfpga_handoff_read sample_collab)) \<and>
   snd (socfpga_handoff_read sample_collab) ! PORT_EMIF_CONFIG_OFFSET = 0x30003 \<and>
   (\<exists>s'. populate_ddr_handoff sample_collab sample_state = Some (0, s') \<and>
      num_port (io96b_ctrl s') = 2 \<and> num_instance (io96b_ctrl s') = 2 \<and>
      bit (io96b_pll (io96b_ctrl s')) 1 \<and> \<not> bit (io96b_pll (io96b_ctrl s')) 2)"
proof -
  have l: "PORT_EMIF_CONFIG_OFFSET < length (snd (socfpga_handoff_read sample_collab))"
    by (simp add: PORT_EMIF_CONFIG_OFFSET_def sample_collab_def)
  have w: "snd (socfpga_handoff_read sample_collab) ! PORT_EMIF_CONFIG_OFFSET = 0x30003"
    by (simp add: PORT_EMIF_CONFIG_OFFSET_def sample_collab_def)
  have b: "bit (0x30003 :: u32) 0" "bit (0x30003 :: u32) 1" "bit (0x30003 :: u32) 17"
    "\<not> bit (0x30003 :: u32) 18"
    by (simp_all add: bit_simps)
  from populate_ddr_handoff_decodes [OF l, of sample_state] l w b show ?thesis
    by (auto simp: w)
qed


subsection \<open>The progress marker through a run\<close>

lemma mmio_emit: "mmio (emit e s) = mmio s"
  by (simp add: emit_def)

lemma is_hang_iff:
  "is_ddr_init_hang P s =
     (mmio s (socfpga_get_sysmgr_addr P + SYSMGR_SOC64_BOOT_SCRATCH_POR0 P) AND
        DDR_PROGRESS_MASK P \<noteq> 0)"
  by (auto simp: is_ddr_init_hang_def readl_def)

lemma is_hang_mmio: "mmio s' = mmio s \<Longrightarrow> is_ddr_init_hang P s' = is_ddr_init_hang P s"
  by (simp add: is_hang_iff)

lemma is_hang_emit: "is_ddr_init_hang P (emit e s) = is_ddr_init_hang P s"
  by (rule is_hang_mmio) (rule mmio_emit)

lemma is_hang_setbits:
  assumes "is_ddr_init_hang P s"
  shows "is_ddr_init_hang P (setbits_le32 a m s)"
proof (cases "a = socfpga_get_sysmgr_addr P + SYSMGR_SOC64_BOOT_SCRATCH_POR0 P")
  case True
  with assms show ?thesis
    by (simp add: is_hang_iff setbits_le32_def writel_def readl_def
        bit.conj_disj_distrib2 or_eq_0_iff)
next
  case False
  with assms show ?thesis
    by (simp add: is_hang_iff setbits_le32_def writel_def readl_def)
qed

lemma marker_kept_and_then:
  assumes "marker_kept P f" and "\<And>s. is_ddr_init_hang P s \<Longrightarrow> marker_kept P (g s)"
  shows "marker_kept P (and_then f g)"
  using assms by (cases f) (simp_all add: marker_kept_def and_then_def)

lemma marker_step_entry:
  "DDR_PROGRESS_MASK P \<noteq> 0 \<Longrightarrow> marker_kept P (step_entry P s)"
  by (simp add: marker_kept_def step_entry_def Let_def is_hang_set)

lemma marker_step_handoff:
  "PORT_EMIF_CONFIG_OFFSET < length (snd (socfpga_handoff_read E)) \<Longrightarrow>
   is_ddr_init_hang P s \<Longrightarrow> marker_kept P (step_handoff E s)"
  by (simp add: marker_kept_def step_handoff_def populate_ddr_handoff_def Let_def
      is_hang_iff)

lemma marker_step_sideband:
  "is_ddr_init_hang P s \<Longrightarrow> marker_kept P (step_sideband P s)"
  by (simp add: marker_kept_def step_sideband_def config_mpfe_sideband_mgr_def Let_def
      set_mpfe_config_def is_hang_setbits)

lemma marker_config_ccu_mgr:
  "is_ddr_init_hang P s \<Longrightarrow> marker_kept P (config_ccu_mgr E s)"
  by (simp add: marker_kept_def config_ccu_mgr_def Let_def is_hang_emit)

lemma marker_step_calibration:
  "is_ddr_init_hang P s \<Longrightarrow> marker_kept P (step_calibration P E s)"
  by (simp add: marker_kept_def step_calibration_def Let_def is_hang_iff
      emit_def)

lemma marker_step_queries:
  "is_ddr_init_hang P s \<Longrightarrow> marker_kept P (step_queries E s)"
  by (simp add: marker_kept_def step_queries_def Let_def is_hang_iff
      emit_def split: prod.split)

lemma marker_step_geometry:
  "is_ddr_init_hang P s \<Longrightarrow> marker_kept P (step_geometry P E s)"
  by (simp add: marker_kept_def step_geometry_def Let_def is_hang_iff
      emit_def auto_partition_def ENXIO_def split: prod.split)

lemma marker_step_ecc:
  "is_ddr_init_hang P s \<Longrightarrow> marker_kept P (step_ecc P E s)"
  by (simp add: marker_kept_def step_ecc_def Let_def is_hang_iff
      emit_def split: prod.split)

lemma step_finish_clears:
  "\<exists>s'. step_finish P s = Exit (Returned 0) s' \<and> \<not> is_ddr_init_hang P s'"
  by (simp add: step_finish_def Let_def is_hang_emit is_hang_clr)

lemma marker_before_ecc:
  assumes "DDR_PROGRESS_MASK P \<noteq> 0"
    and "PORT_EMIF_CONFIG_OFFSET < length (snd (socfpga_handoff_read E))"
  shows "marker_kept P (before_ecc P E s)"
  unfolding before_ecc_def before_geometry_def before_calibration_def
  by (intro marker_kept_and_then marker_step_entry marker_step_handoff marker_step_sideband
      marker_config_ccu_mgr marker_step_calibration marker_step_queries marker_step_geometry
      assms)

text \<open>
  C4. In every run the progress marker is set on entry; the run ends with the marker
  still set exactly when it does not return 0 (an error return or \<^verbatim>\<open>hang()\<close>), and
  with the marker cleared exactly when it returns 0, which only the final step does.
  The handoff table is taken to hold the configuration word and the progress mask to
  be non-zero; the collaborators do not write the scratch register.
\<close>

theorem progress_marker_lifecycle:
  assumes m: "DDR_PROGRESS_MASK P \<noteq> 0"
    and l: "PORT_EMIF_CONFIG_OFFSET < length (snd (socfpga_handoff_read E))"
  shows "(\<exists>s1. step_entry P s = Next s1 \<and> is_ddr_init_hang P s1) \<and>
         fst (sdram_mmr_init_full P E s) \<noteq> Undefined \<and>
         is_ddr_init_hang P (snd (sdram_mmr_init_full P E s)) =
           (fst (sdram_mmr_init_full P E s) \<noteq> Returned 0)"
proof -
  have e: "\<exists>s1. step_entry P s = Next s1 \<and> is_ddr_init_hang P s1"
    using m by (simp add: step_entry_def Let_def is_hang_set)
  have k: "marker_kept P (and_then (before_ecc P E s) (step_ecc P E))"
    by (intro marker_kept_and_then marker_before_ecc marker_step_ecc m l)
  have r: "fst (sdram_mmr_init_full P E s) \<noteq> Undefined \<and>
           is_ddr_init_hang P (snd (sdram_mmr_init_full P E s)) =
           (fst (sdram_mmr_init_full P E s) \<noteq> Returned 0)"
  proof (cases "and_then (before_ecc P E s) (step_ecc P E)")
    case (Exit r s')
    with k show ?thesis
      by (simp add: sdram_mmr_init_full_def run_steps_def and_then_def marker_kept_def)
  next
    case (Next s')
    obtain s'' where "step_finish P s' = Exit (Returned 0) s''" "\<not> is_ddr_init_hang P s''"
      using step_finish_clears by blast
    with Next show ?thesis
      by (simp add: sdram_mmr_init_full_def run_steps_def and_then_def)
  qed
  show ?thesis using e r by simp
qed

theorem progress_marker_lifecycle_witness:
  "DDR_PROGRESS_MASK sample_consts \<noteq> 0 \<and>
   PORT_EMIF_CONFIG_OFFSET < length (snd (socfpga_handoff_read sample_collab)) \<and>
   fst (sdram_mmr_init_full sample_consts sample_collab sample_state) = Returned 0 \<and>
   \<not> is_ddr_init_hang sample_consts
       (snd (sdram_mmr_init_full sample_consts sample_collab sample_state)) \<and>
   fst (sdram_mmr_init_full sample_consts
          (sample_collab\<lparr>get_mem_technology := (\<lambda>c. (- 5, c))\<rparr>) sample_state) = Returned (- 5) \<and>
   is_ddr_init_hang sample_consts
     (snd (sdram_mmr_init_full sample_consts
             (sample_collab\<lparr>get_mem_technology := (\<lambda>c. (- 5, c))\<rparr>) sample_state))"
proof -
  have m: "DDR_PROGRESS_MASK sample_consts \<noteq> 0" by (simp add: sample_consts_def)
  have l: "PORT_EMIF_CONFIG_OFFSET < length (snd (socfpga_handoff_read sample_collab))"
    by (simp add: PORT_EMIF_CONFIG_OFFSET_def sample_collab_def)
  have l': "PORT_EMIF_CONFIG_OFFSET < length (snd (socfpga_handoff_read
              (sample_collab\<lparr>get_mem_technology := (\<lambda>c. (- 5, c))\<rparr>)))"
    by (simp add: PORT_EMIF_CONFIG_OFFSET_def sample_collab_def)
  have o: "fst (sdram_mmr_init_full sample_consts sample_collab sample_state) = Returned 0"
    by code_simp
  have o': "fst (sdram_mmr_init_full sample_consts
          (sample_collab\<lparr>get_mem_technology := (\<lambda>c. (- 5, c))\<rparr>) sample_state) = Returned (- 5)"
    by code_simp
  from progress_marker_lifecycle [OF m l, of sample_state]
    progress_marker_lifecycle [OF m l', of sample_state] m l o o'
  show ?thesis by simp
qed


subsection \<open>The full-initialization decision\<close>

lemma dbe_emit [simp]: "ddr_ecc_dbe_status P (emit e s) = ddr_ecc_dbe_status P s"
  by (simp add: ddr_ecc_dbe_status_def readl_def emit_def)

lemma ocram_emit [simp]: "hps_ocram_dbe_status P (emit e s) = hps_ocram_dbe_status P s"
  by (simp add: hps_ocram_dbe_status_def readl_def emit_def)

lemma dbe_ctrl [simp]: "ddr_ecc_dbe_status P (s\<lparr>io96b_ctrl := c\<rparr>) = ddr_ecc_dbe_status P s"
  by (simp add: ddr_ecc_dbe_status_def readl_def)

lemma ocram_ctrl [simp]: "hps_ocram_dbe_status P (s\<lparr>io96b_ctrl := c\<rparr>) = hps_ocram_dbe_status P s"
  by (simp add: hps_ocram_dbe_status_def readl_def)

lemma and_then_Next:
  "and_then f g = Next s \<Longrightarrow> \<exists>s1. f = Next s1 \<and> g s1 = Next s"
  by (cases f) (simp_all add: and_then_def)

lemma and_then_Next_eq: "and_then (Next s) g = g s"
  by (simp add: and_then_def)

lemma and_then_Exit_eq: "and_then (Exit r s) g = Exit r s"
  by (simp add: and_then_def)

lemma step_ecc_decision:
  assumes q: "ecc_enable_status E (io96b_ctrl s) = (0, c)"
    and t: "Call ''bist_mem_init_start'' \<notin> set (trace s)"
  shows "(Call ''bist_mem_init_start'' \<in> set (trace (flow_state (step_ecc P E s)))) =
         (ecc_status c \<and>
          (hps_ocram_dbe_status P s \<or> ddr_ecc_dbe_status P s \<or> is_ddr_hang_be4_rst s \<or>
           (reset_t s \<noteq> reset_type_val WARM_RESET \<and> reset_t s \<noteq> reset_type_val COLD_RESET)))"
proof -
  have q': "ecc_enable_status E (io96b_ctrl (emit e s)) = (0, c)" for e
    using q by (simp add: emit_def)
  show ?thesis
    using t
    by (simp add: step_ecc_def Let_def q' flow_state_def split: prod.split)
       (auto simp: emit_def)
qed

lemma step_finish_trace:
  "(Call ''bist_mem_init_start'' \<in> set (trace (flow_state (step_finish P s)))) =
   (Call ''bist_mem_init_start'' \<in> set (trace s))"
  by (simp add: step_finish_def Let_def flow_state_def emit_def writel_def
      ddr_init_inprogress_def clrbits_le32_def)

lemma run_after_ecc:
  "before_ecc P E s0 = Next s \<Longrightarrow>
   snd (sdram_mmr_init_full P E s0) =
     (case step_ecc P E s of Exit r s1 \<Rightarrow> s1 | Next s1 \<Rightarrow> flow_state (step_finish P s1))"
  by (simp add: sdram_mmr_init_full_def run_steps_def and_then_def step_finish_def Let_def
      flow_state_def split: flow.split)

text \<open>The locals set on entry are not assigned again.\<close>

lemma entry_locals:
  "step_entry P s0 = Next s \<Longrightarrow>
   reset_t s = get_reset_type P
                 (readl (socfpga_get_sysmgr_addr P + SYSMGR_SOC64_BOOT_SCRATCH_COLD3 P) s0) \<and>
   is_ddr_hang_be4_rst s = is_ddr_init_hang P s0"
  by (auto simp: step_entry_def Let_def ddr_init_inprogress_def setbits_le32_def writel_def
      readl_def is_ddr_init_hang_def)

lemma handoff_locals:
  "step_handoff E s = Next s' \<Longrightarrow>
   reset_t s' = reset_t s \<and> is_ddr_hang_be4_rst s' = is_ddr_hang_be4_rst s"
  by (auto simp: step_handoff_def populate_ddr_handoff_def Let_def
      split: option.splits if_splits)

lemma sideband_locals:
  "step_sideband P s = Next s' \<Longrightarrow>
   reset_t s' = reset_t s \<and> is_ddr_hang_be4_rst s' = is_ddr_hang_be4_rst s"
  by (auto simp: step_sideband_def config_mpfe_sideband_mgr_def set_mpfe_config_def Let_def
      setbits_le32_def writel_def split: if_splits)

lemma ccu_locals:
  "config_ccu_mgr E s = Next s' \<Longrightarrow>
   reset_t s' = reset_t s \<and> is_ddr_hang_be4_rst s' = is_ddr_hang_be4_rst s"
  by (auto simp: config_ccu_mgr_def Let_def split: if_splits)

lemma calibration_locals:
  "step_calibration P E s = Next s' \<Longrightarrow>
   reset_t s' = reset_t s \<and> is_ddr_hang_be4_rst s' = is_ddr_hang_be4_rst s"
  by (auto simp: step_calibration_def Let_def emit_def split: if_splits)

lemma queries_locals:
  "step_queries E s = Next s' \<Longrightarrow>
   reset_t s' = reset_t s \<and> is_ddr_hang_be4_rst s' = is_ddr_hang_be4_rst s"
  by (auto simp: step_queries_def Let_def emit_def split: if_splits prod.splits)

lemma geometry_locals:
  "step_geometry P E s = Next s' \<Longrightarrow>
   reset_t s' = reset_t s \<and> is_ddr_hang_be4_rst s' = is_ddr_hang_be4_rst s"
  by (auto simp: step_geometry_def auto_partition_def Let_def emit_def
      split: if_splits prod.splits)

lemma before_ecc_locals:
  assumes "before_ecc P E s0 = Next s"
  shows "reset_t s = get_reset_type P
                 (readl (socfpga_get_sysmgr_addr P + SYSMGR_SOC64_BOOT_SCRATCH_COLD3 P) s0) \<and>
         is_ddr_hang_be4_rst s = is_ddr_init_hang P s0"
proof -
  from assms obtain s6 where 6: "before_geometry P E s0 = Next s6" "step_geometry P E s6 = Next s"
    unfolding before_ecc_def by (blast dest: and_then_Next)
  from 6(1) obtain s4 s5 where 5: "before_calibration P E s0 = Next s4"
      "step_calibration P E s4 = Next s5" "step_queries E s5 = Next s6"
    unfolding before_geometry_def by (blast dest: and_then_Next)
  from 5(1) obtain s1 s2 s3 where 3: "step_entry P s0 = Next s1" "step_handoff E s1 = Next s2"
      "step_sideband P s2 = Next s3" "config_ccu_mgr E s3 = Next s4"
    unfolding before_calibration_def by (blast dest: and_then_Next)
  show ?thesis
    using entry_locals [OF 3(1)] handoff_locals [OF 3(2)] sideband_locals [OF 3(3)]
      ccu_locals [OF 3(4)] calibration_locals [OF 5(2)] queries_locals [OF 5(3)]
      geometry_locals [OF 6(2)]
    by simp
qed

text \<open>
  C1. In a run that reaches the ECC step and whose ECC query succeeds, the full
  memory initialization (\<^verbatim>\<open>bist_mem_init_start\<close>) is performed if and only if the memory
  is ECC capable and the on-chip-RAM marker is set, or the DRAM marker is set, or
  the progress marker was set when the run began, or the reset type read on entry is
  neither warm nor cold. This holds for every value of the reset-type field,
  enumerated or not.
\<close>

theorem full_init_decision:
  assumes b: "before_ecc P E s0 = Next s"
    and q: "ecc_enable_status E (io96b_ctrl s) = (0, c)"
    and t: "Call ''bist_mem_init_start'' \<notin> set (trace s)"
  shows "(Call ''bist_mem_init_start'' \<in> set (trace (snd (sdram_mmr_init_full P E s0)))) =
         (ecc_status c \<and>
          (hps_ocram_dbe_status P s \<or> ddr_ecc_dbe_status P s \<or> is_ddr_init_hang P s0 \<or>
           (get_reset_type P
              (readl (socfpga_get_sysmgr_addr P + SYSMGR_SOC64_BOOT_SCRATCH_COLD3 P) s0)
              \<noteq> reset_type_val WARM_RESET \<and>
            get_reset_type P
              (readl (socfpga_get_sysmgr_addr P + SYSMGR_SOC64_BOOT_SCRATCH_COLD3 P) s0)
              \<noteq> reset_type_val COLD_RESET)))"
proof -
  have "(Call ''bist_mem_init_start'' \<in> set (trace (snd (sdram_mmr_init_full P E s0)))) =
        (Call ''bist_mem_init_start'' \<in> set (trace (flow_state (step_ecc P E s))))"
    unfolding run_after_ecc [OF b]
    by (cases "step_ecc P E s") (simp_all add: flow_state_def step_finish_trace [unfolded flow_state_def])
  thus ?thesis
    using step_ecc_decision [OF q t, of P] before_ecc_locals [OF b] by simp
qed

lemma Next_flow_state: "flow_outcome f = None \<Longrightarrow> f = Next (flow_state f)"
  by (cases f) (simp_all add: flow_outcome_def flow_state_def)

theorem full_init_decision_witness:
  "flow_outcome (before_ecc sample_consts sample_collab sample_state) = None \<and>
   Call ''bist_mem_init_start'' \<notin>
     set (trace (flow_state (before_ecc sample_consts sample_collab sample_state))) \<and>
   get_reset_type sample_consts
     (readl (socfpga_get_sysmgr_addr sample_consts + SYSMGR_SOC64_BOOT_SCRATCH_COLD3 sample_consts)
        sample_state) = reset_type_val POR_RESET \<and>
   Call ''bist_mem_init_start'' \<in>
     set (trace (snd (sdram_mmr_init_full sample_consts sample_collab sample_state)))"
proof -
  let ?s = "flow_state (before_ecc sample_consts sample_collab sample_state)"
  have o: "flow_outcome (before_ecc sample_consts sample_collab sample_state) = None"
    by code_simp
  have b: "before_ecc sample_consts sample_collab sample_state = Next ?s"
    by (rule Next_flow_state [OF o])
  have q: "ecc_enable_status sample_collab (io96b_ctrl ?s) =
             (0, (io96b_ctrl ?s)\<lparr>ecc_status := True\<rparr>)"
    by (simp add: sample_collab_def)
  have t: "Call ''bist_mem_init_start'' \<notin> set (trace ?s)"
    by code_simp
  have r: "get_reset_type sample_consts
     (readl (socfpga_get_sysmgr_addr sample_consts + SYSMGR_SOC64_BOOT_SCRATCH_COLD3 sample_consts)
        sample_state) = reset_type_val POR_RESET"
    by code_simp
  from full_init_decision [OF b q t] o t r show ?thesis by simp
qed


subsection \<open>Recalibration\<close>

lemma trace_emit: "trace (emit e s) = trace s @ [e]"
  by (simp add: emit_def)

lemma io96b_ctrl_emit: "io96b_ctrl (emit e s) = io96b_ctrl s"
  by (simp add: emit_def)

lemma fold_clear_io96b:
  "io96b (fold (\<lambda>i c. c\<lparr>io96b := (io96b c)(i := (io96b c i)\<lparr>cal_status := False\<rparr>)\<rparr>) is c) j =
     (if j \<in> set is then (io96b c j)\<lparr>cal_status := False\<rparr> else io96b c j)"
  by (induction "is" arbitrary: c) auto

lemma clear_cal_status_flags:
  "\<not> overall_cal_status (clear_cal_status c) \<and>
   num_instance (clear_cal_status c) = num_instance c \<and>
   (\<forall>i<num_instance c. \<not> cal_status (io96b (clear_cal_status c) i))"
  by (simp add: clear_cal_status_def fold_clear_io96b fold_csr_fields)

text \<open>
  The trigger of the recalibration. With \<open>c3\<close> the descriptor after initialization,
  \<^verbatim>\<open>trig_mem_cal\<close> is called if and only if the DRAM double-bit-error marker is set or
  the aggregate calibration flag is false. In the first case the aggregate flag and
  the flag of every instance are cleared in the descriptor handed to the
  recalibration; in the second the descriptor is handed over as it is.
\<close>

lemma recalibration_trigger_condition:
  assumes t: "Call ''trig_mem_cal'' \<notin> set (trace s)"
    and c3: "c3 = io96b_mb_init E (init_mem_cal E ((io96b_ctrl s)\<lparr>ckgen_lock := True\<rparr>))"
  shows "\<exists>s'. step_calibration P E s = Next s' \<and>
     (Call ''trig_mem_cal'' \<in> set (trace s')) =
       (ddr_ecc_dbe_status P s \<or> \<not> overall_cal_status c3) \<and>
     (ddr_ecc_dbe_status P s \<longrightarrow>
        io96b_ctrl s' = trig_mem_cal E (clear_cal_status c3) \<and>
        \<not> overall_cal_status (clear_cal_status c3) \<and>
        (\<forall>i<num_instance c3. \<not> cal_status (io96b (clear_cal_status c3) i))) \<and>
     (\<not> ddr_ecc_dbe_status P s \<and> \<not> overall_cal_status c3 \<longrightarrow>
        io96b_ctrl s' = trig_mem_cal E c3) \<and>
     (\<not> ddr_ecc_dbe_status P s \<and> overall_cal_status c3 \<longrightarrow> io96b_ctrl s' = c3)"
  using t clear_cal_status_flags [of c3]
  by (auto simp add: step_calibration_def Let_def c3 trace_emit io96b_ctrl_emit)

lemma recalibration_trigger_condition_sample:
  "Call ''trig_mem_cal'' \<notin> set (trace sample_state) \<and>
   ddr_ecc_dbe_status sample_consts (sample_state\<lparr>mmio := (\<lambda>a. 2)\<rparr>) \<and>
   \<not> ddr_ecc_dbe_status sample_consts sample_state \<and>
   (\<exists>s'. step_calibration sample_consts sample_collab (sample_state\<lparr>mmio := (\<lambda>a. 2)\<rparr>) = Next s' \<and>
      Call ''trig_mem_cal'' \<in> set (trace s')) \<and>
   (\<exists>s'. step_calibration sample_consts sample_collab sample_state = Next s' \<and>
      Call ''trig_mem_cal'' \<notin> set (trace s'))"
proof -
  have t: "Call ''trig_mem_cal'' \<notin> set (trace sample_state)"
    "Call ''trig_mem_cal'' \<notin> set (trace (sample_state\<lparr>mmio := (\<lambda>a. 2)\<rparr>))"
    by (simp_all add: sample_state_def)
  have d: "ddr_ecc_dbe_status sample_consts (sample_state\<lparr>mmio := (\<lambda>a. 2)\<rparr>)"
    "\<not> ddr_ecc_dbe_status sample_consts sample_state"
    by (simp_all add: ddr_ecc_dbe_status_def readl_def sample_consts_def sample_state_def)
  have o: "overall_cal_status (io96b_mb_init sample_collab
             (init_mem_cal sample_collab ((io96b_ctrl sample_state)\<lparr>ckgen_lock := True\<rparr>)))"
    by (simp add: sample_collab_def calibrated_def)
  from recalibration_trigger_condition [OF t(2) refl, of sample_consts sample_collab]
    recalibration_trigger_condition [OF t(1) refl, of sample_consts sample_collab] t d o
  show ?thesis by auto
qed


subsection \<open>Geometry against the device tree\<close>

lemma run_from_geometry:
  "before_geometry P E s0 = Next s \<Longrightarrow>
   sdram_mmr_init_full P E s0 =
     (case step_geometry P E s of
        Exit r s1 \<Rightarrow> (r, s1)
      | Next s1 \<Rightarrow>
          (case step_ecc P E s1 of
             Exit r s2 \<Rightarrow> (r, s2)
           | Next s2 \<Rightarrow> (Returned 0, flow_state (step_finish P s2))))"
  by (simp add: sdram_mmr_init_full_def run_steps_def before_ecc_def and_then_def
      step_finish_def Let_def flow_state_def split: flow.split)

lemma step_ecc_keeps:
  "fst (case step_ecc P E s of Exit r s2 \<Rightarrow> (r, s2)
        | Next s2 \<Rightarrow> (Returned 0, flow_state (step_finish P s2))) \<noteq> Hang \<and>
   gd_ram_size (snd (case step_ecc P E s of Exit r s2 \<Rightarrow> (r, s2)
        | Next s2 \<Rightarrow> (Returned 0, flow_state (step_finish P s2)))) = gd_ram_size s \<and>
   bd_bi_dram (snd (case step_ecc P E s of Exit r s2 \<Rightarrow> (r, s2)
        | Next s2 \<Rightarrow> (Returned 0, flow_state (step_finish P s2)))) = bd_bi_dram s \<and>
   (fst (case step_ecc P E s of Exit r s2 \<Rightarrow> (r, s2)
        | Next s2 \<Rightarrow> (Returned 0, flow_state (step_finish P s2))) = Returned 0 \<longrightarrow>
    priv_info_size (snd (case step_ecc P E s of Exit r s2 \<Rightarrow> (r, s2)
        | Next s2 \<Rightarrow> (Returned 0, flow_state (step_finish P s2)))) = gd_ram_size s \<and>
    priv_info_base (snd (case step_ecc P E s of Exit r s2 \<Rightarrow> (r, s2)
        | Next s2 \<Rightarrow> (Returned 0, flow_state (step_finish P s2)))) = bank_start (bd_bi_dram s 0))"
  by (simp add: step_ecc_def step_finish_def Let_def flow_state_def emit_def writel_def
      ddr_init_inprogress_def clrbits_le32_def split: prod.split)

text \<open>
  C3 as stated fails: with 4 GiB of memory and a device tree that declares 8 GiB the
  run does not return an error to its caller; it stops in \<^verbatim>\<open>hang()\<close>.
\<close>

theorem geometry_exceeds_hardware_counterexample:
  "fst (sdram_mmr_init_full sample_consts
          (sample_collab\<lparr>fdtdec_decode_ram_size := (\<lambda>ram_size bd. (0, 0x200000000, bd))\<rparr>)
          sample_state) = Hang"
  by code_simp

text \<open>
  C3, amended. In a run that reaches the geometry step with a device tree that
  decodes to a size strictly greater than the hardware size, the error is printed
  and the run stops in \<^verbatim>\<open>hang()\<close> without returning; no bank is assigned, so the bank
  layout is the one the device tree decoder left, and the size stays the declared
  one.
\<close>

theorem geometry_exceeds_hardware:
  assumes b: "before_geometry P E s0 = Next s"
    and f: "fdtdec_decode_ram_size E (gd_ram_size s) (bd_bi_dram s) = (0, declared, bd)"
    and g: "hw_size s < declared"
  shows "fst (sdram_mmr_init_full P E s0) = Hang \<and>
         bd_bi_dram (snd (sdram_mmr_init_full P E s0)) = bd \<and>
         gd_ram_size (snd (sdram_mmr_init_full P E s0)) = declared \<and>
         Printf ''DDR: Error: DRAM size from device tree is greater'' []
           \<in> set (trace (snd (sdram_mmr_init_full P E s0)))"
proof -
  have p: "0 < declared" using g by unat_arith
  have n: "declared \<noteq> hw_size s" using g by simp
  define s' where "s' = emit (Printf '' than hardware size.'' [])
     (emit (Printf ''DDR: Error: DRAM size from device tree is greater'' [])
     (emit (Printf '' mismatch with hardware (%lld MiB).'' [drop_bit 20 (hw_size s)])
     (emit (Printf ''DDR: Warning: DRAM size from device tree (%lld MiB)'' [drop_bit 20 declared])
        ((emit (Call ''fdtdec_decode_ram_size'') s)\<lparr>gd_ram_size := declared, bd_bi_dram := bd\<rparr>))))"
  have e: "step_geometry P E s = Exit Hang s'"
    using p n g by (auto simp add: step_geometry_def f Let_def emit_def s'_def)
  show ?thesis
    by (simp add: run_from_geometry [OF b] e) (simp add: s'_def emit_def)
qed

theorem geometry_exceeds_hardware_witness:
  "flow_outcome (before_geometry sample_consts
      (sample_collab\<lparr>fdtdec_decode_ram_size := (\<lambda>ram_size bd. (0, 0x200000000, bd))\<rparr>)
      sample_state) = None \<and>
   hw_size (flow_state (before_geometry sample_consts
      (sample_collab\<lparr>fdtdec_decode_ram_size := (\<lambda>ram_size bd. (0, 0x200000000, bd))\<rparr>)
      sample_state)) < 0x200000000 \<and>
   fst (sdram_mmr_init_full sample_consts
      (sample_collab\<lparr>fdtdec_decode_ram_size := (\<lambda>ram_size bd. (0, 0x200000000, bd))\<rparr>)
      sample_state) = Hang \<and>
   gd_ram_size (snd (sdram_mmr_init_full sample_consts
      (sample_collab\<lparr>fdtdec_decode_ram_size := (\<lambda>ram_size bd. (0, 0x200000000, bd))\<rparr>)
      sample_state)) = 0x200000000"
proof -
  let ?E = "sample_collab\<lparr>fdtdec_decode_ram_size := (\<lambda>ram_size bd. (0, 0x200000000, bd))\<rparr>"
  let ?s = "flow_state (before_geometry sample_consts ?E sample_state)"
  have o: "flow_outcome (before_geometry sample_consts ?E sample_state) = None"
    by code_simp
  have b: "before_geometry sample_consts ?E sample_state = Next ?s"
    by (rule Next_flow_state [OF o])
  have f: "fdtdec_decode_ram_size ?E (gd_ram_size ?s) (bd_bi_dram ?s) =
             (0, 0x200000000, bd_bi_dram ?s)"
    by simp
  have g: "hw_size ?s < 0x200000000"
    by code_simp
  from geometry_exceeds_hardware [OF b f g] o g show ?thesis by simp
qed

text \<open>
  C6. In a run that reaches the geometry step with a declared size that is greater
  than 0, at most the hardware size and different from it, the step prints the
  mismatch warning with both sizes (in MiB) and goes on with the declared size and
  the device tree's bank layout; the run does not hang, keeps the declared size, and
  reports it as the size of the memory when it returns 0.
\<close>

theorem declared_size_mismatch:
  assumes b: "before_geometry P E s0 = Next s"
    and f: "fdtdec_decode_ram_size E (gd_ram_size s) (bd_bi_dram s) = (0, declared, bd)"
    and p: "0 < declared" and l: "declared \<le> hw_size s" and n: "declared \<noteq> hw_size s"
  shows "(\<exists>s'. step_geometry P E s = Next s' \<and>
            trace s' = trace s @
              [Call ''fdtdec_decode_ram_size'',
               Printf ''DDR: Warning: DRAM size from device tree (%lld MiB)'' [drop_bit 20 declared],
               Printf '' mismatch with hardware (%lld MiB).'' [drop_bit 20 (hw_size s)]] \<and>
            gd_ram_size s' = declared \<and> bd_bi_dram s' = bd) \<and>
         fst (sdram_mmr_init_full P E s0) \<noteq> Hang \<and>
         gd_ram_size (snd (sdram_mmr_init_full P E s0)) = declared \<and>
         (fst (sdram_mmr_init_full P E s0) = Returned 0 \<longrightarrow>
            priv_info_size (snd (sdram_mmr_init_full P E s0)) = declared)"
proof -
  have ng: "\<not> hw_size s < declared" using l by simp
  define s' where "s' = emit (Printf '' mismatch with hardware (%lld MiB).'' [drop_bit 20 (hw_size s)])
     (emit (Printf ''DDR: Warning: DRAM size from device tree (%lld MiB)'' [drop_bit 20 declared])
        ((emit (Call ''fdtdec_decode_ram_size'') s)\<lparr>gd_ram_size := declared, bd_bi_dram := bd\<rparr>))"
  have g: "step_geometry P E s = Next s'"
    using p n ng by (auto simp add: step_geometry_def f Let_def emit_def s'_def)
  have 1: "trace s' = trace s @
              [Call ''fdtdec_decode_ram_size'',
               Printf ''DDR: Warning: DRAM size from device tree (%lld MiB)'' [drop_bit 20 declared],
               Printf '' mismatch with hardware (%lld MiB).'' [drop_bit 20 (hw_size s)]]"
    and 2: "gd_ram_size s' = declared" and 3: "bd_bi_dram s' = bd"
    by (simp_all add: s'_def emit_def)
  from step_ecc_keeps [of P E s'] g 1 2 3 show ?thesis
    by (simp add: run_from_geometry [OF b])
qed

theorem declared_size_mismatch_witness:
  "flow_outcome (before_geometry sample_consts
      (sample_collab\<lparr>fdtdec_decode_ram_size := (\<lambda>ram_size bd. (0, 0x80000000, bd))\<rparr>)
      sample_state) = None \<and>
   hw_size (flow_state (before_geometry sample_consts
      (sample_collab\<lparr>fdtdec_decode_ram_size := (\<lambda>ram_size bd. (0, 0x80000000, bd))\<rparr>)
      sample_state)) = 0x100000000 \<and>
   fst (sdram_mmr_init_full sample_consts
      (sample_collab\<lparr>fdtdec_decode_ram_size := (\<lambda>ram_size bd. (0, 0x80000000, bd))\<rparr>)
      sample_state) = Returned 0 \<and>
   priv_info_size (snd (sdram_mmr_init_full sample_consts
      (sample_collab\<lparr>fdtdec_decode_ram_size := (\<lambda>ram_size bd. (0, 0x80000000, bd))\<rparr>)
      sample_state)) = 0x80000000"
proof -
  let ?E = "sample_collab\<lparr>fdtdec_decode_ram_size := (\<lambda>ram_size bd. (0, 0x80000000, bd))\<rparr>"
  let ?s = "flow_state (before_geometry sample_consts ?E sample_state)"
  have o: "flow_outcome (before_geometry sample_consts ?E sample_state) = None"
    by code_simp
  have b: "before_geometry sample_consts ?E sample_state = Next ?s"
    by (rule Next_flow_state [OF o])
  have f: "fdtdec_decode_ram_size ?E (gd_ram_size ?s) (bd_bi_dram ?s) =
             (0, 0x80000000, bd_bi_dram ?s)"
    by simp
  have h: "hw_size ?s = 0x100000000"
    by code_simp
  have r: "fst (sdram_mmr_init_full sample_consts ?E sample_state) = Returned 0"
    by code_simp
  have p: "(0::u64) < 0x80000000" and l: "(0x80000000::u64) \<le> hw_size ?s"
    and n: "(0x80000000::u64) \<noteq> hw_size ?s"
    by (simp_all add: h)
  from declared_size_mismatch [OF b f p l n] o h r show ?thesis by simp
qed


subsection \<open>Partition into banks\<close>

lemma spec_partition_length: "length (spec_partition r caps) \<le> length caps"
  by (induction caps arbitrary: r) auto

lemma spec_partition_sum:
  "r \<le> sum_list caps \<Longrightarrow> sum_list (spec_partition r caps) = r"
  by (induction caps arbitrary: r) auto

lemma spec_partition_le:
  "i < length (spec_partition r caps) \<Longrightarrow> spec_partition r caps ! i \<le> caps ! i"
proof (induction caps arbitrary: r i)
  case Nil
  then show ?case by simp
next
  case (Cons c caps)
  then show ?case by (cases i) (auto split: if_splits)
qed

lemma fill_banks_refines:
  assumes "distinct is" and "unat sc \<le> unat hw"
  shows "(\<forall>j<length (spec_partition (unat hw - unat sc)
                       (map (\<lambda>i. unat (max_size (dram_bank_info ! i))) is)).
            bank_start (fill_banks hw is sc bd (is ! j)) = start (dram_bank_info ! (is ! j)) \<and>
            unat (bank_size (fill_banks hw is sc bd (is ! j))) =
              spec_partition (unat hw - unat sc)
                (map (\<lambda>i. unat (max_size (dram_bank_info ! i))) is) ! j) \<and>
         (\<forall>i. i \<notin> set (take (length (spec_partition (unat hw - unat sc)
                       (map (\<lambda>i. unat (max_size (dram_bank_info ! i))) is))) is) \<longrightarrow>
            fill_banks hw is sc bd i = bd i)"
  using assms
proof (induction "is" arbitrary: sc bd)
  case Nil
  then show ?case by simp
next
  case (Cons i "is")
  let ?cap = "max_size (dram_bank_info ! i)"
  let ?caps = "map (\<lambda>i. unat (max_size (dram_bank_info ! i))) is"
  have le: "sc \<le> hw" using Cons.prems(2) by (simp add: word_le_nat_alt)
  have rem: "unat (hw - sc) = unat hw - unat sc" using le by (rule unat_sub)
  show ?case
  proof (cases "hw - sc \<le> ?cap")
    case True
    hence t: "unat hw - unat sc \<le> unat ?cap" using rem by (simp add: word_le_nat_alt)
    show ?thesis using True t rem by (simp add: Let_def)
  next
    case False
    hence f: "\<not> unat hw - unat sc \<le> unat ?cap" using rem by (simp add: word_le_nat_alt)
    have lt: "unat sc + unat ?cap < unat hw" using f by simp
    have "unat hw < 2 ^ 64" using unsigned_less [of hw] by simp
    hence add: "unat (sc + ?cap) = unat sc + unat ?cap"
      using lt by (simp add: unat_add_lem [THEN iffD1])
    have sc': "unat (sc + ?cap) \<le> unat hw" using add lt by simp
    have d: "distinct is" "i \<notin> set is" using Cons.prems(1) by simp_all
    let ?bd = "bd(i := \<lparr>bank_start = start (dram_bank_info ! i), bank_size = ?cap\<rparr>)"
    let ?sz = "spec_partition (unat hw - unat (sc + ?cap)) ?caps"
    note IH = Cons.IH [OF d(1) sc', of ?bd]
    from IH have IH1: "\<And>j. j < length ?sz \<Longrightarrow>
        bank_start (fill_banks hw is (sc + ?cap) ?bd (is ! j)) = start (dram_bank_info ! (is ! j)) \<and>
        unat (bank_size (fill_banks hw is (sc + ?cap) ?bd (is ! j))) = ?sz ! j"
      by blast
    from IH have IH2: "\<And>k. k \<notin> set (take (length ?sz) is) \<Longrightarrow>
        fill_banks hw is (sc + ?cap) ?bd k = ?bd k"
      by blast
    have r': "unat hw - unat sc - unat ?cap = unat hw - unat (sc + ?cap)" using add by simp
    have frame_i: "fill_banks hw is (sc + ?cap) ?bd i = ?bd i"
      using d(2) by (intro IH2) (auto dest: in_set_takeD)
    have m: "min (unat hw - unat sc) (unat ?cap) = unat ?cap" using f by simp
    have sz: "spec_partition (unat hw - unat sc)
                (map (\<lambda>i. unat (max_size (dram_bank_info ! i))) (i # is)) = unat ?cap # ?sz"
      using f m r' by simp
    have fb: "fill_banks hw (i # is) sc bd = fill_banks hw is (sc + ?cap) ?bd"
      using False by (simp add: Let_def)
    have A: "bank_start (fill_banks hw is (sc + ?cap) ?bd ((i # is) ! j)) =
              start (dram_bank_info ! ((i # is) ! j)) \<and>
            unat (bank_size (fill_banks hw is (sc + ?cap) ?bd ((i # is) ! j))) =
              (unat ?cap # ?sz) ! j"
      if "j < length (unat ?cap # ?sz)" for j
      using that IH1 frame_i by (cases j) simp_all
    have B: "fill_banks hw is (sc + ?cap) ?bd k = bd k"
      if "k \<notin> set (take (length (unat ?cap # ?sz)) (i # is))" for k
    proof -
      from that have "k \<noteq> i" "k \<notin> set (take (length ?sz) is)" by simp_all
      thus ?thesis using IH2 [of k] by simp
    qed
    show ?thesis
      unfolding sz fb using A B by blast
  qed
qed

lemma config_dram_banks_le: "config_dram_banks P \<le> length dram_bank_info"
  by (simp add: config_dram_banks_def MEMORY_BANK_MAX_COUNT_def dram_bank_info_def)

lemma bank_caps_upt:
  "bank_caps P = map (\<lambda>i. unat (max_size (dram_bank_info ! i))) [0..<config_dram_banks P]"
  using config_dram_banks_le [of P]
  by (auto simp: bank_caps_def list_eq_iff_nth_eq)

lemma step_geometry_auto:
  assumes f: "fdtdec_decode_ram_size E (gd_ram_size s) (bd_bi_dram s) = (0, 0, bd)"
    and h: "0 < hw_size s"
  shows "\<exists>s'. step_geometry P E s = Next s' \<and> gd_ram_size s' = hw_size s \<and>
           bd_bi_dram s' = fill_banks (hw_size s) [0..<config_dram_banks P] 0 bd"
  using h by (simp add: step_geometry_def f Let_def auto_partition_def emit_def)

text \<open>
  C2 as stated fails: with 4097 Gbit of memory (512 GiB and 128 MiB) and no declared
  size, the three banks are filled to their capacities, which add up to 512 GiB,
  while the resolved size is the hardware size.
\<close>

theorem auto_partition_banks_counterexample:
  "fst (sdram_mmr_init_full sample_consts
     (sample_collab\<lparr>get_mem_width_info := (\<lambda>c. (0, c\<lparr>overall_size := 4097\<rparr>))\<rparr>)
     sample_state) = Returned 0 \<and>
   gd_ram_size (snd (sdram_mmr_init_full sample_consts
     (sample_collab\<lparr>get_mem_width_info := (\<lambda>c. (0, c\<lparr>overall_size := 4097\<rparr>))\<rparr>)
     sample_state)) = 0x8008000000 \<and>
   map (\<lambda>i. bank_size (bd_bi_dram (snd (sdram_mmr_init_full sample_consts
     (sample_collab\<lparr>get_mem_width_info := (\<lambda>c. (0, c\<lparr>overall_size := 4097\<rparr>))\<rparr>)
     sample_state)) i)) [0, 1, 2] = [0x80000000, 0x780000000, 0x7800000000] \<and>
   (0x80000000 + 0x780000000 + 0x7800000000 :: u64) \<noteq> 0x8008000000"
  by code_simp

text \<open>
  C2, amended. When the device tree declares no size and the hardware size is not 0,
  the geometry step continues with the hardware size as the resolved size, and the
  banks it assigns are those of the specification's partition over the capacities of
  the banks in use (the first \<^verbatim>\<open>CONFIG_NR_DRAM_BANKS\<close> of the table, at most three):
  each at its fixed start address, each with the smaller of the remaining size and
  its capacity, ending with the first bank that can hold the remainder. No assigned
  size exceeds the bank's capacity and the banks after the last assigned one are left
  as the device tree decoder gave them. The assigned sizes add up to the hardware
  size whenever that does not exceed the total capacity of the banks in use.
\<close>

theorem auto_partition_banks:
  assumes f: "fdtdec_decode_ram_size E (gd_ram_size s) (bd_bi_dram s) = (0, 0, bd)"
    and h: "0 < hw_size s"
    and sz: "sizes = spec_partition (unat (hw_size s)) (bank_caps P)"
  shows "\<exists>s'. step_geometry P E s = Next s' \<and> gd_ram_size s' = hw_size s \<and>
     length sizes \<le> config_dram_banks P \<and>
     (\<forall>i<length sizes.
        bank_start (bd_bi_dram s' i) = start (dram_bank_info ! i) \<and>
        unat (bank_size (bd_bi_dram s' i)) = sizes ! i \<and>
        bank_size (bd_bi_dram s' i) \<le> max_size (dram_bank_info ! i)) \<and>
     (\<forall>i\<ge>length sizes. bd_bi_dram s' i = bd i) \<and>
     (unat (hw_size s) \<le> sum_list (bank_caps P) \<longrightarrow>
        (\<Sum>i<length sizes. unat (bank_size (bd_bi_dram s' i))) = unat (hw_size s))"
proof -
  let ?N = "config_dram_banks P"
  let ?bd = "fill_banks (hw_size s) [0..<?N] 0 bd"
  from step_geometry_auto [OF f h, of P] obtain s' where
    s': "step_geometry P E s = Next s'" "gd_ram_size s' = hw_size s" "bd_bi_dram s' = ?bd"
    by blast
  have len: "length sizes \<le> ?N"
    using spec_partition_length [of "unat (hw_size s)" "bank_caps P"]
    by (simp add: sz bank_caps_upt)
  have sz': "sizes = spec_partition (unat (hw_size s) - unat (0::u64))
                (map (\<lambda>i. unat (max_size (dram_bank_info ! i))) [0..<?N])"
    by (simp add: sz bank_caps_upt)
  have R: "(\<forall>j<length sizes.
            bank_start (?bd ([0..<?N] ! j)) = start (dram_bank_info ! ([0..<?N] ! j)) \<and>
            unat (bank_size (?bd ([0..<?N] ! j))) = sizes ! j) \<and>
         (\<forall>i. i \<notin> set (take (length sizes) [0..<?N]) \<longrightarrow> ?bd i = bd i)"
    unfolding sz' by (rule fill_banks_refines) simp_all
  have 1: "bank_start (?bd i) = start (dram_bank_info ! i) \<and>
           unat (bank_size (?bd i)) = sizes ! i \<and>
           bank_size (?bd i) \<le> max_size (dram_bank_info ! i)" if "i < length sizes" for i
  proof -
    have i: "i < ?N" using that len by simp
    hence n: "[0..<?N] ! i = i" by simp
    from R that n have a: "bank_start (?bd i) = start (dram_bank_info ! i)"
      and b: "unat (bank_size (?bd i)) = sizes ! i" by auto
    have "sizes ! i \<le> bank_caps P ! i"
      using spec_partition_le [of i "unat (hw_size s)" "bank_caps P"] that by (simp add: sz)
    also have "bank_caps P ! i = unat (max_size (dram_bank_info ! i))"
      using i by (simp add: bank_caps_upt)
    finally have "bank_size (?bd i) \<le> max_size (dram_bank_info ! i)"
      using b by (simp add: word_le_nat_alt)
    with a b show ?thesis by simp
  qed
  have 2: "?bd i = bd i" if "length sizes \<le> i" for i
  proof -
    have "take (length sizes) [0..<?N] = [0..<length sizes]" using len by (simp add: take_upt)
    hence "i \<notin> set (take (length sizes) [0..<?N])" using that by simp
    thus ?thesis using R by blast
  qed
  have 3: "(\<Sum>i<length sizes. unat (bank_size (?bd i))) = unat (hw_size s)"
    if "unat (hw_size s) \<le> sum_list (bank_caps P)"
  proof -
    have "(\<Sum>i<length sizes. unat (bank_size (?bd i))) = (\<Sum>i<length sizes. sizes ! i)"
      using 1 by simp
    also have "\<dots> = sum_list sizes"
      by (simp add: sum_list_sum_nth atLeast0LessThan)
    also have "\<dots> = unat (hw_size s)"
      unfolding sz using that by (rule spec_partition_sum)
    finally show ?thesis .
  qed
  show ?thesis using s' len 1 2 3 by auto
qed


theorem auto_partition_banks_witness:
  "fdtdec_decode_ram_size sample_collab (gd_ram_size (sample_state\<lparr>hw_size := 0x100000000\<rparr>))
      (bd_bi_dram (sample_state\<lparr>hw_size := 0x100000000\<rparr>)) =
     (0, 0, bd_bi_dram sample_state) \<and>
   (0::u64) < hw_size (sample_state\<lparr>hw_size := 0x100000000\<rparr>) \<and>
   spec_partition (unat (hw_size (sample_state\<lparr>hw_size := 0x100000000\<rparr>)))
     (bank_caps sample_consts) = [2147483648, 2147483648] \<and>
   unat (hw_size (sample_state\<lparr>hw_size := 0x100000000\<rparr>)) \<le> sum_list (bank_caps sample_consts) \<and>
   (\<exists>s'. step_geometry sample_consts sample_collab (sample_state\<lparr>hw_size := 0x100000000\<rparr>) = Next s' \<and>
      gd_ram_size s' = 0x100000000 \<and>
      bank_start (bd_bi_dram s' 0) = 0x80000000 \<and> unat (bank_size (bd_bi_dram s' 0)) = 2147483648 \<and>
      bank_start (bd_bi_dram s' 1) = 0x880000000 \<and> unat (bank_size (bd_bi_dram s' 1)) = 2147483648 \<and>
      bd_bi_dram s' 2 = bd_bi_dram sample_state 2 \<and>
      unat (bank_size (bd_bi_dram s' 0)) + unat (bank_size (bd_bi_dram s' 1)) = 4294967296)"
proof -
  let ?s = "sample_state\<lparr>hw_size := 0x100000000\<rparr>"
  have f: "fdtdec_decode_ram_size sample_collab (gd_ram_size ?s) (bd_bi_dram ?s) =
             (0, 0, bd_bi_dram sample_state)"
    by (simp add: sample_collab_def)
  have h: "(0::u64) < hw_size ?s" by simp
  have caps: "bank_caps sample_consts = [2147483648, 32212254720, 515396075520]"
    by (simp add: bank_caps_def config_dram_banks_def MEMORY_BANK_MAX_COUNT_def
        sample_consts_def dram_bank_info_def)
  have sz: "[2147483648, 2147483648] = spec_partition (unat (hw_size ?s)) (bank_caps sample_consts)"
    by (simp add: caps)
  have le: "unat (hw_size ?s) \<le> sum_list (bank_caps sample_consts)"
    by (simp add: caps)
  from auto_partition_banks [OF f h sz] obtain s' where
    g: "step_geometry sample_consts sample_collab ?s = Next s'" "gd_ram_size s' = hw_size ?s"
    and b: "\<forall>i<length [2147483648::nat, 2147483648].
        bank_start (bd_bi_dram s' i) = start (dram_bank_info ! i) \<and>
        unat (bank_size (bd_bi_dram s' i)) = [2147483648, 2147483648] ! i \<and>
        bank_size (bd_bi_dram s' i) \<le> max_size (dram_bank_info ! i)"
    and r: "\<forall>i\<ge>length [2147483648::nat, 2147483648]. bd_bi_dram s' i = bd_bi_dram sample_state i"
    and t: "unat (hw_size ?s) \<le> sum_list (bank_caps sample_consts) \<longrightarrow>
        (\<Sum>i<length [2147483648::nat, 2147483648]. unat (bank_size (bd_bi_dram s' i))) = unat (hw_size ?s)"
    by blast
  from b have b0: "bank_start (bd_bi_dram s' 0) = 0x80000000 \<and>
      unat (bank_size (bd_bi_dram s' 0)) = 2147483648"
    by (simp add: dram_bank_info_def)
  from b have "1 < length [2147483648::nat, 2147483648] \<longrightarrow>
        bank_start (bd_bi_dram s' 1) = start (dram_bank_info ! 1) \<and>
        unat (bank_size (bd_bi_dram s' 1)) = [2147483648, 2147483648] ! 1"
    by blast
  hence b1: "bank_start (bd_bi_dram s' 1) = 0x880000000 \<and>
      unat (bank_size (bd_bi_dram s' 1)) = 2147483648"
    by (simp add: dram_bank_info_def)
  from r have r2: "bd_bi_dram s' 2 = bd_bi_dram sample_state 2" by simp
  from t le
  have t2: "unat (bank_size (bd_bi_dram s' 0)) + unat (bank_size (bd_bi_dram s' 1)) = 4294967296"
    by simp
  from f h sz [symmetric] le g b0 b1 r2 t2 show ?thesis by simp
qed

subsection \<open>A handoff table that cannot be read\<close>

text \<open>
  C9. The claim does not hold of the code: when \<^verbatim>\<open>socfpga_handoff_read\<close> reports a
  failure (here status -1, the buffer holding zeros), \<^verbatim>\<open>populate_ddr_handoff\<close> still
  returns 0, so the error branch of \<^verbatim>\<open>sdram_mmr_init_full\<close> is not taken and the run
  goes on to return 0.
\<close>

theorem populate_ddr_handoff_read_failure:
  "fst (socfpga_handoff_read (sample_collab\<lparr>socfpga_handoff_read := (- 1, [0, 0, 0, 0, 0])\<rparr>)) = - 1 \<and>
   map_option fst (populate_ddr_handoff
      (sample_collab\<lparr>socfpga_handoff_read := (- 1, [0, 0, 0, 0, 0])\<rparr>) sample_state) = Some 0 \<and>
   fst (sdram_mmr_init_full sample_consts
      (sample_collab\<lparr>socfpga_handoff_read := (- 1, [0, 0, 0, 0, 0])\<rparr>) sample_state) = Returned 0"
  by code_simp

end
